theory Spec2Isabelle
  imports Main
begin

section \<open>Runtime values\<close>

text \<open>
  The adapters receive untyped argument bags (\<^verbatim>\<open>Record<string, unknown>\<close>) and cast them
  without validation, so the model works on JSON-like runtime values. A missing property
  reads as \<open>JUndefined\<close>. Numbers are modelled as integers (port numbers, counts, type
  ids); a string is the list of its UTF-8 bytes. What the engine's text library does with
  a string (trimming, case mapping, encoding and decoding of buffers) is not code of the
  program and depends on the whole of Unicode; the adapters take these functions from the
  outside world (see the record \<open>backend\<close> below).
\<close>

datatype jsval =
    JUndefined
  | JNull
  | JBool bool
  | JNum int
  | JStr string
  | JArr "jsval list"
  | JObj "(string \<times> jsval) list"

text \<open>
  Everything a \<^verbatim>\<open>throw\<close> can carry: an \<^verbatim>\<open>Error\<close> with its message, a
  \<^verbatim>\<open>TypeError\<close> raised by the engine (message texts as V8 prints them), or a value that
  is not an \<^verbatim>\<open>Error\<close> instance (a vendor library may reject with one).
\<close>

datatype thrown = Error string | TypeError string | NonError jsval

text \<open>\<^verbatim>\<open>error instanceof Error ? error.message : 'Unknown error'\<close>\<close>

fun catch_message :: "thrown \<Rightarrow> string" where
  "catch_message (Error m) = m"
| "catch_message (TypeError m) = m"
| "catch_message (NonError v) = ''Unknown error''"

text \<open>Property access on an object literal; JavaScript truthiness.\<close>

definition get_prop :: "(string \<times> jsval) list \<Rightarrow> string \<Rightarrow> jsval" where
  "get_prop obj k = (case map_of obj k of None \<Rightarrow> JUndefined | Some v \<Rightarrow> v)"

fun truthy :: "jsval \<Rightarrow> bool" where
  "truthy JUndefined = False"
| "truthy JNull = False"
| "truthy (JBool b) = b"
| "truthy (JNum n) = (n \<noteq> 0)"
| "truthy (JStr s) = (s \<noteq> [])"
| "truthy (JArr xs) = True"
| "truthy (JObj kvs) = True"

subsection \<open>String primitives\<close>

text \<open>
  On ASCII text the engine's \<^verbatim>\<open>trim\<close>, \<^verbatim>\<open>toUpperCase\<close> and \<^verbatim>\<open>toLowerCase\<close> are the
  functions below: the white space of the ASCII range is TAB, LF, VT, FF, CR and SPACE,
  and only the letters a to z and A to Z have another case. Outside ASCII the engine does
  more (it also trims U+00A0, U+FEFF, U+2028 and others, and maps letters such as
  U+017F), which these functions do not describe; they say what a faithful engine does on
  ASCII text and serve in the examples.
\<close>

definition ascii_white_space :: "char \<Rightarrow> bool" where
  "ascii_white_space c = (c = CHR 0x09 \<or> c = CHR 0x0A \<or> c = CHR 0x0B \<or> c = CHR 0x0C
     \<or> c = CHR 0x0D \<or> c = CHR '' '')"

definition ascii_trim :: "string \<Rightarrow> string" where
  "ascii_trim s = rev (dropWhile ascii_white_space (rev (dropWhile ascii_white_space s)))"

definition ascii_upper_char :: "char \<Rightarrow> char" where
  "ascii_upper_char c =
     (let n = (of_char c :: nat) in if 97 \<le> n \<and> n \<le> 122 then char_of (n - 32) else c)"

definition ascii_lower_char :: "char \<Rightarrow> char" where
  "ascii_lower_char c =
     (let n = (of_char c :: nat) in if 65 \<le> n \<and> n \<le> 90 then char_of (n + 32) else c)"

definition ascii_upper :: "string \<Rightarrow> string" where
  "ascii_upper s = map ascii_upper_char s"

definition ascii_lower :: "string \<Rightarrow> string" where
  "ascii_lower s = map ascii_lower_char s"

definition is_ascii :: "string \<Rightarrow> bool" where
  "is_ascii s = list_all (\<lambda>c. (of_char c :: nat) < 128) s"

text \<open>\<^verbatim>\<open>String.prototype.startsWith\<close>, here only ever asked for an ASCII prefix.\<close>

definition startsWith :: "string \<Rightarrow> string \<Rightarrow> bool" where
  "startsWith s p = (take (length p) s = p)"

text \<open>\<^verbatim>\<open>Array.prototype.join\<close> on an array of strings.\<close>

fun join :: "string \<Rightarrow> string list \<Rightarrow> string" where
  "join sep [] = []"
| "join sep [x] = x"
| "join sep (x # y # ys) = x @ sep @ join sep (y # ys)"

definition CRLF :: string where
  "CRLF = [CHR 0x0D, CHR 0x0A]"

subsection \<open>JSON.stringify(value, null, 2)\<close>

fun digits :: "nat \<Rightarrow> string" where
  "digits n = (if n < 10 then [char_of (48 + n)] else digits (n div 10) @ [char_of (48 + n mod 10)])"

definition show_int :: "int \<Rightarrow> string" where
  "show_int i = (if i < 0 then CHR ''-'' # digits (nat (- i)) else digits (nat i))"

definition hex_digit :: "nat \<Rightarrow> char" where
  "hex_digit n = (if n < 10 then char_of (48 + n) else char_of (87 + n))"

definition escape_char :: "char \<Rightarrow> string" where
  "escape_char c =
     (let n = (of_char c :: nat) in
      if c = CHR 0x22 then [CHR 0x5C, CHR 0x22]
      else if c = CHR 0x5C then [CHR 0x5C, CHR 0x5C]
      else if n = 8 then [CHR 0x5C, CHR ''b'']
      else if n = 9 then [CHR 0x5C, CHR ''t'']
      else if n = 10 then [CHR 0x5C, CHR ''n'']
      else if n = 12 then [CHR 0x5C, CHR ''f'']
      else if n = 13 then [CHR 0x5C, CHR ''r'']
      else if n < 32 then [CHR 0x5C, CHR ''u'', CHR ''0'', CHR ''0'', hex_digit (n div 16), hex_digit (n mod 16)]
      else [c])"

definition quote :: "string \<Rightarrow> string" where
  "quote s = [CHR 0x22] @ concat (map escape_char s) @ [CHR 0x22]"

definition pad :: "nat \<Rightarrow> string" where
  "pad i = replicate i CHR '' ''"

definition comma_nl :: string where
  "comma_nl = [CHR '','', CHR 0x0A]"

text \<open>
  \<open>stringify i v\<close> is the text of \<open>v\<close> at indentation \<open>i\<close>. A property whose value is
  \<^verbatim>\<open>undefined\<close> is left out of an object; an \<^verbatim>\<open>undefined\<close> array element prints as
  \<^verbatim>\<open>null\<close>. The adapters only ever stringify an object or an array at the top.
\<close>

fun stringify :: "nat \<Rightarrow> jsval \<Rightarrow> string" where
  "stringify i JUndefined = ''null''"
| "stringify i JNull = ''null''"
| "stringify i (JBool b) = (if b then ''true'' else ''false'')"
| "stringify i (JNum n) = show_int n"
| "stringify i (JStr s) = quote s"
| "stringify i (JArr xs) =
     (if xs = [] then ''[]''
      else ''['' @ [CHR 0x0A]
        @ join comma_nl (map (\<lambda>x. pad (i + 2) @ stringify (i + 2) x) xs)
        @ [CHR 0x0A] @ pad i @ '']'')"
| "stringify i (JObj kvs) =
     (let kept = filter (\<lambda>kv. snd kv \<noteq> JUndefined) kvs in
      if kept = [] then ''{}''
      else ''{'' @ [CHR 0x0A]
        @ join comma_nl
            (map (\<lambda>kv. pad (i + 2) @ quote (fst kv) @ '': '' @ stringify (i + 2) (snd kv)) kept)
        @ [CHR 0x0A] @ pad i @ ''}'')"

definition JSON_stringify :: "jsval \<Rightarrow> string" where
  "JSON_stringify v = stringify 0 v"


section \<open>The outside world\<close>

text \<open>
  The SQL driver and the email API are not part of the program. They are modelled by a
  record of response functions: each takes the requests issued so far (so that a response
  may depend on everything that happened before) and the arguments of the call, and either
  throws or returns the driver's result. The world is the list of requests that reached a
  backend, oldest first; a call appends its request. An operation that leaves the world
  unchanged has not touched the database or the mailbox. An optional field of a vendor
  response is \<open>None\<close> when it is missing or null. All operations are asynchronous in
  the source; the model runs each call to its end, and leaves out what is written to the
  console.

  The engine's text library is outside the program as well. Its functions are fields of
  the same record: \<^verbatim>\<open>String.prototype.trim\<close>, \<^verbatim>\<open>toUpperCase\<close> and \<^verbatim>\<open>toLowerCase\<close>,
  \<^verbatim>\<open>Buffer.from(s)\<close> (the UTF-8 bytes of a string, one character per byte; a string that is
  not well-formed Unicode does not get its own bytes back),
  \<^verbatim>\<open>Buffer.from(s, "base64")\<close> (a lenient decoder, which reads both alphabets and stops at
  padding) and \<^verbatim>\<open>buf.toString("utf-8")\<close> (which replaces bytes that are not UTF-8).
  Nothing is assumed about them, so that what is proved holds for the engine's functions
  whatever they do outside ASCII.
\<close>

record FieldDef =
  field_name :: string
  dataTypeID :: int

record QueryResult =
  rows :: "jsval list"
  rowCount :: "int option"
  fields' :: "FieldDef list"
  command :: string

record GmailMessageItem =
  item_id :: "string option"
  item_threadId :: "string option"

record GmailHeader =
  header_name :: "string option"
  header_value :: "string option"

record GmailBody =
  data :: "string option"

record GmailMessagePart =
  part_body :: "GmailBody option"

record GmailPayload =
  headers :: "GmailHeader list option"
  body :: "GmailBody option"
  parts :: "GmailMessagePart list option"

record GmailMessage =
  id' :: "string option"
  threadId :: "string option"
  labelIds :: "string list option"
  snippet :: "string option"
  payload :: "GmailPayload option"

datatype request =
    PoolQuery string jsval
  | PoolEnd
  | MessagesList jsval jsval jsval
  | MessagesGet jsval jsval
  | MessagesSend string
  | LabelsList

type_synonym world = "request list"

record backend =
  pool_query :: "world \<Rightarrow> string \<Rightarrow> jsval \<Rightarrow> thrown + QueryResult"
  pool_end :: "world \<Rightarrow> thrown + unit"
  messages_list :: "world \<Rightarrow> jsval \<Rightarrow> jsval \<Rightarrow> jsval \<Rightarrow> thrown + GmailMessageItem list option"
  messages_get :: "world \<Rightarrow> jsval \<Rightarrow> jsval \<Rightarrow> thrown + GmailMessage"
  messages_send :: "world \<Rightarrow> string \<Rightarrow> thrown + GmailMessageItem"
  labels_list :: "world \<Rightarrow> thrown + jsval"
  string_trim :: "string \<Rightarrow> string"
  string_toUpperCase :: "string \<Rightarrow> string"
  string_toLowerCase :: "string \<Rightarrow> string"
  buffer_utf8 :: "string \<Rightarrow> string"
  buffer_base64 :: "string \<Rightarrow> nat list"
  buffer_toString :: "nat list \<Rightarrow> string"

type_synonym 'a outcome = "(thrown + 'a) \<times> world"

text \<open>The process environment, and \<^verbatim>\<open>process.env.X || default\<close>.\<close>

type_synonym env = "string \<rightharpoonup> string"

definition env_or :: "env \<Rightarrow> string \<Rightarrow> string \<Rightarrow> string" where
  "env_or e k d = (case e k of None \<Rightarrow> d | Some v \<Rightarrow> if v = [] then d else v)"

text \<open>The argument bag of a tool call; \<open>None\<close> when the request carried none.\<close>

type_synonym args = "(string \<times> jsval) list option"

record ContentItem =
  type' :: string
  text' :: string

record ToolResult =
  content :: "ContentItem list"

record ResourceItem =
  uri :: string
  mimeType :: string
  resource_text :: string

record ResourceResult =
  contents :: "ResourceItem list"

record Tool =
  name :: string
  description :: string
  inputSchema :: jsval

text \<open>A destructuring default: it applies to \<^verbatim>\<open>undefined\<close> only, not to \<^verbatim>\<open>null\<close>.\<close>

definition default_to :: "jsval \<Rightarrow> jsval \<Rightarrow> jsval" where
  "default_to d v = (if v = JUndefined then d else v)"

definition text_result :: "jsval \<Rightarrow> ToolResult" where
  "text_result v = \<lparr>content = [\<lparr>type' = ''text'', text' = JSON_stringify v\<rparr>]\<rparr>"

definition sq :: string where
  "sq = [CHR 0x27]"

definition destructure_error :: "string \<Rightarrow> thrown" where
  "destructure_error k =
     TypeError (''Cannot destructure property '' @ sq @ k @ sq @ '' of 'args' as it is undefined.'')"

definition null_error :: "string \<Rightarrow> thrown" where
  "null_error k = TypeError (''Cannot read properties of null (reading '' @ sq @ k @ sq @ '')'')"

section \<open>The database adapter (postgres.service.ts)\<close>

definition is_digit :: "char \<Rightarrow> bool" where
  "is_digit c = (48 \<le> (of_char c :: nat) \<and> (of_char c :: nat) \<le> 57)"

text \<open>\<^verbatim>\<open>parseInt(s, 10)\<close> of ASCII text; \<open>None\<close> is NaN.\<close>

definition parseInt :: "string \<Rightarrow> int option" where
  "parseInt s =
     (let t = dropWhile ascii_white_space s;
          neg = (t \<noteq> [] \<and> hd t = CHR ''-'');
          u = (if t \<noteq> [] \<and> (hd t = CHR ''-'' \<or> hd t = CHR ''+'') then tl t else t);
          ds = takeWhile is_digit u;
          n = int (foldl (\<lambda>a c. 10 * a + (of_char c - 48)) 0 ds)
      in if ds = [] then None else Some (if neg then - n else n))"

record Pool =
  host :: string
  port :: "int option"
  database :: string
  user :: string
  password :: string
  ssl :: jsval
  max' :: nat
  idleTimeoutMillis :: nat
  connectionTimeoutMillis :: nat

record PostgresService =
  pool :: "Pool option"

definition call_pool_query :: "backend \<Rightarrow> string \<Rightarrow> jsval \<Rightarrow> world \<Rightarrow> QueryResult outcome" where
  "call_pool_query bk q params w = (pool_query bk w q params, w @ [PoolQuery q params])"

definition call_pool_end :: "backend \<Rightarrow> world \<Rightarrow> unit outcome" where
  "call_pool_end bk w = (pool_end bk w, w @ [PoolEnd])"

text \<open>
  The constructor. Without a password the pool stays \<^verbatim>\<open>null\<close>. Otherwise the pool is
  built and a connection test is sent; its failure is only logged.
\<close>

definition initializePostgres :: "backend \<Rightarrow> env \<Rightarrow> world \<Rightarrow> PostgresService \<times> world" where
  "initializePostgres bk e w =
     (case e ''POSTGRES_PASSWORD'' of
        None \<Rightarrow> (\<lparr>pool = None\<rparr>, w)
      | Some pw \<Rightarrow>
          if pw = [] then (\<lparr>pool = None\<rparr>, w)
          else
            (\<lparr>pool = Some \<lparr>
                 host = env_or e ''POSTGRES_HOST'' ''localhost'',
                 port = parseInt (env_or e ''POSTGRES_PORT'' ''5432''),
                 database = env_or e ''POSTGRES_DATABASE'' ''postgres'',
                 user = env_or e ''POSTGRES_USER'' ''postgres'',
                 password = pw,
                 ssl = (if e ''POSTGRES_SSL'' = Some ''true''
                        then JObj [(''rejectUnauthorized'', JBool False)] else JBool False),
                 max' = 10,
                 idleTimeoutMillis = 30000,
                 connectionTimeoutMillis = 2000\<rparr>\<rparr>,
             snd (call_pool_query bk ''SELECT NOW()'' JUndefined w)))"

definition string_schema :: "string \<Rightarrow> jsval" where
  "string_schema d = JObj [(''type'', JStr ''string''), (''description'', JStr d)]"

definition params_schema :: jsval where
  "params_schema = JObj [(''type'', JStr ''array''),
     (''items'', JObj [(''type'', JStr ''string'')]),
     (''description'', JStr ''Optional parameters for parameterized query'')]"

definition schema_name_schema :: jsval where
  "schema_name_schema = JObj [(''type'', JStr ''string''),
     (''description'', JStr ''Schema name (default: public)''),
     (''default'', JStr ''public'')]"

definition postgres_tools :: "Tool list" where
  "postgres_tools =
    [\<lparr>name = ''postgres_query'',
      description = ''Execute a SELECT query on PostgreSQL database. Returns read-only results.'',
      inputSchema = JObj [(''type'', JStr ''object''),
        (''properties'', JObj [(''query'', string_schema ''SQL SELECT query to execute''),
                               (''params'', params_schema)]),
        (''required'', JArr [JStr ''query''])]\<rparr>,
     \<lparr>name = ''postgres_execute'',
      description = ''Execute a write operation (INSERT, UPDATE, DELETE) on PostgreSQL database.'',
      inputSchema = JObj [(''type'', JStr ''object''),
        (''properties'', JObj [(''query'', string_schema ''SQL query to execute (INSERT, UPDATE, DELETE)''),
                               (''params'', params_schema)]),
        (''required'', JArr [JStr ''query''])]\<rparr>,
     \<lparr>name = ''postgres_get_tables'',
      description = ''Get list of all tables in the database'',
      inputSchema = JObj [(''type'', JStr ''object''),
        (''properties'', JObj [(''schema'', schema_name_schema)])]\<rparr>,
     \<lparr>name = ''postgres_get_table_schema'',
      description = ''Get schema information for a specific table'',
      inputSchema = JObj [(''type'', JStr ''object''),
        (''properties'', JObj [(''tableName'', string_schema ''Name of the table''),
                               (''schema'', schema_name_schema)]),
        (''required'', JArr [JStr ''tableName''])]\<rparr>]"

definition PostgresService_getTools :: "PostgresService \<Rightarrow> Tool list" where
  "PostgresService_getTools this = (case pool this of None \<Rightarrow> [] | Some p \<Rightarrow> postgres_tools)"

text \<open>
  What \<^verbatim>\<open>query.trim()\<close> throws when \<^verbatim>\<open>query\<close> is not a string (the cast to
  \<^verbatim>\<open>QueryArgs\<close> checks nothing).
\<close>

definition trim_error :: "jsval \<Rightarrow> thrown" where
  "trim_error v =
     (if v = JUndefined then TypeError ''Cannot read properties of undefined (reading 'trim')''
      else if v = JNull then TypeError ''Cannot read properties of null (reading 'trim')''
      else TypeError ''query.trim is not a function'')"

definition query_rejected :: thrown where
  "query_rejected =
     Error ''postgres_query only accepts SELECT queries. Use postgres_execute for write operations.''"

definition execute_rejected :: thrown where
  "execute_rejected =
     Error ''postgres_execute is for write operations. Use postgres_query for SELECT queries.''"

definition QueryResponse :: "QueryResult \<Rightarrow> jsval" where
  "QueryResponse result =
     JObj [(''rows'', JArr (rows result)),
           (''rowCount'', JNum (case rowCount result of None \<Rightarrow> 0 | Some n \<Rightarrow> n)),
           (''fields'', JArr (map (\<lambda>field. JObj [(''name'', JStr (field_name field)),
                                                   (''dataTypeID'', JNum (dataTypeID field))])
                                 (fields' result)))]"

definition ExecuteResponse :: "QueryResult \<Rightarrow> jsval" where
  "ExecuteResponse result =
     JObj [(''success'', JBool True),
           (''rowCount'', (case rowCount result of None \<Rightarrow> JNull | Some n \<Rightarrow> JNum n)),
           (''command'', JStr (command result))]"

text \<open>
  \<open>pool_run this bk q params w f\<close> is \<^verbatim>\<open>await this.pool!.query(q, params)\<close> followed by
  building the response with \<open>f\<close> and wrapping its JSON text as the one content item.
\<close>

definition pool_run ::
  "PostgresService \<Rightarrow> backend \<Rightarrow> string \<Rightarrow> jsval \<Rightarrow> world \<Rightarrow> (QueryResult \<Rightarrow> jsval) \<Rightarrow> ToolResult outcome" where
  "pool_run this bk q params w f =
     (case pool this of
        None \<Rightarrow> (Inl (null_error ''query''), w)
      | Some p \<Rightarrow>
          (case call_pool_query bk q params w of
             (Inl e, w') \<Rightarrow> (Inl e, w')
           | (Inr result, w') \<Rightarrow> (Inr (text_result (f result)), w')))"

definition query :: "backend \<Rightarrow> PostgresService \<Rightarrow> args \<Rightarrow> world \<Rightarrow> ToolResult outcome" where
  "query bk this args w =
     (case args of
        None \<Rightarrow> (Inl (destructure_error ''query''), w)
      | Some a \<Rightarrow>
          let params = default_to (JArr []) (get_prop a ''params'') in
          (case get_prop a ''query'' of
             JStr q \<Rightarrow>
               let trimmedQuery = string_toUpperCase bk (string_trim bk q) in
               if \<not> startsWith trimmedQuery ''SELECT'' then (Inl query_rejected, w)
               else pool_run this bk q params w QueryResponse
           | v \<Rightarrow> (Inl (trim_error v), w)))"

definition execute :: "backend \<Rightarrow> PostgresService \<Rightarrow> args \<Rightarrow> world \<Rightarrow> ToolResult outcome" where
  "execute bk this args w =
     (case args of
        None \<Rightarrow> (Inl (destructure_error ''query''), w)
      | Some a \<Rightarrow>
          let params = default_to (JArr []) (get_prop a ''params'') in
          (case get_prop a ''query'' of
             JStr q \<Rightarrow>
               let trimmedQuery = string_toUpperCase bk (string_trim bk q) in
               if startsWith trimmedQuery ''SELECT'' then (Inl execute_rejected, w)
               else pool_run this bk q params w ExecuteResponse
           | v \<Rightarrow> (Inl (trim_error v), w)))"

definition getTables_sql :: string where
  "getTables_sql = ''\<newline>      SELECT table_name, table_type\<newline>      FROM information_schema.tables\<newline>      WHERE table_schema = $1\<newline>      ORDER BY table_name;\<newline>    ''"

definition getTableSchema_sql :: string where
  "getTableSchema_sql = ''\<newline>      SELECT\<newline>        column_name,\<newline>        data_type,\<newline>        is_nullable,\<newline>        column_default,\<newline>        character_maximum_length,\<newline>        numeric_precision,\<newline>        numeric_scale\<newline>      FROM information_schema.columns\<newline>      WHERE table_schema = $1 AND table_name = $2\<newline>      ORDER BY ordinal_position;\<newline>    ''"

definition getTables :: "backend \<Rightarrow> PostgresService \<Rightarrow> args \<Rightarrow> world \<Rightarrow> ToolResult outcome" where
  "getTables bk this args w =
     (case args of
        None \<Rightarrow> (Inl (destructure_error ''schema''), w)
      | Some a \<Rightarrow>
          let schema = default_to (JStr ''public'') (get_prop a ''schema'') in
          pool_run this bk getTables_sql (JArr [schema]) w (\<lambda>result. JArr (rows result)))"

definition getTableSchema :: "backend \<Rightarrow> PostgresService \<Rightarrow> args \<Rightarrow> world \<Rightarrow> ToolResult outcome" where
  "getTableSchema bk this args w =
     (case args of
        None \<Rightarrow> (Inl (destructure_error ''tableName''), w)
      | Some a \<Rightarrow>
          let tableName = get_prop a ''tableName'';
              schema = default_to (JStr ''public'') (get_prop a ''schema'') in
          pool_run this bk getTableSchema_sql (JArr [schema, tableName]) w (\<lambda>result. JArr (rows result)))"

definition postgres_not_initialized :: thrown where
  "postgres_not_initialized =
     Error ''PostgreSQL service not initialized. Please check your database credentials.''"

definition postgres_failed :: "thrown \<Rightarrow> thrown" where
  "postgres_failed e = Error (''PostgreSQL operation failed: '' @ catch_message e)"

definition PostgresService_handleTool ::
  "backend \<Rightarrow> PostgresService \<Rightarrow> string \<Rightarrow> args \<Rightarrow> world \<Rightarrow> ToolResult outcome" where
  "PostgresService_handleTool bk this nm args w =
     (case pool this of
        None \<Rightarrow> (Inl postgres_not_initialized, w)
      | Some p \<Rightarrow>
          (case (if nm = ''postgres_query'' then query bk this args w
                 else if nm = ''postgres_execute'' then execute bk this args w
                 else if nm = ''postgres_get_tables'' then getTables bk this args w
                 else if nm = ''postgres_get_table_schema'' then getTableSchema bk this args w
                 else (Inl (Error (''Unknown PostgreSQL tool: '' @ nm)), w)) of
             (Inl e, w') \<Rightarrow> (Inl (postgres_failed e), w')
           | (Inr r, w') \<Rightarrow> (Inr r, w')))"

definition connection_status :: "env \<Rightarrow> string \<Rightarrow> jsval" where
  "connection_status e status =
     JObj [(''status'', JStr status),
           (''database'', JStr (env_or e ''POSTGRES_DATABASE'' ''postgres'')),
           (''host'', JStr (env_or e ''POSTGRES_HOST'' ''localhost''))]"

definition PostgresService_readResource ::
  "backend \<Rightarrow> env \<Rightarrow> PostgresService \<Rightarrow> string \<Rightarrow> world \<Rightarrow> ResourceResult outcome" where
  "PostgresService_readResource bk e this u w =
     (if u = ''postgres://connection'' then
        let (status, w') =
              (case pool this of
                 None \<Rightarrow> (''disconnected'', w)
               | Some p \<Rightarrow>
                   (case call_pool_query bk ''SELECT 1'' JUndefined w of
                      (Inl err, w1) \<Rightarrow> (''error'', w1)
                    | (Inr r, w1) \<Rightarrow> (''connected'', w1)))
        in (Inr \<lparr>contents = [\<lparr>uri = u, mimeType = ''application/json'',
                               resource_text = JSON_stringify (connection_status e status)\<rparr>]\<rparr>, w')
      else (Inl (Error (''Unknown PostgreSQL resource: '' @ u)), w))"

text \<open>
  \<open>cleanup\<close> drains the pool and then forgets it. If draining throws, the assignment is
  not reached and the pool stays.
\<close>

definition PostgresService_cleanup ::
  "backend \<Rightarrow> PostgresService \<Rightarrow> world \<Rightarrow> (thrown + unit) \<times> PostgresService \<times> world" where
  "PostgresService_cleanup bk this w =
     (case pool this of
        None \<Rightarrow> (Inr (), this, w)
      | Some p \<Rightarrow>
          (case call_pool_end bk w of
             (Inl e, w') \<Rightarrow> (Inl e, this, w')
           | (Inr u, w') \<Rightarrow> (Inr (), this\<lparr>pool := None\<rparr>, w')))"


section \<open>Buffers and base64\<close>

text \<open>
  \<^verbatim>\<open>Buffer.from(s)\<close> is the bytes the engine encodes \<open>s\<close> to, as numbers below 256.
  \<^verbatim>\<open>buf.toString("base64")\<close> is standard base64 with padding (RFC 4648), a function of
  the bytes alone. \<^verbatim>\<open>Buffer.from(s, "base64").toString("utf-8")\<close> is the engine's decoder
  followed by the engine's reading of the bytes as text.
\<close>

definition base64_alphabet :: string where
  "base64_alphabet = ''ABCDEFGHIJKLMNOPQRSTUVWXYZabcdefghijklmnopqrstuvwxyz0123456789+/''"

definition base64_char :: "nat \<Rightarrow> char" where
  "base64_char n = base64_alphabet ! n"

definition Buffer_from :: "backend \<Rightarrow> string \<Rightarrow> nat list" where
  "Buffer_from bk s = map of_char (buffer_utf8 bk s)"

fun toString_base64 :: "nat list \<Rightarrow> string" where
  "toString_base64 (a # b # c # rest) =
     [base64_char (a div 4), base64_char ((a mod 4) * 16 + b div 16),
      base64_char ((b mod 16) * 4 + c div 64), base64_char (c mod 64)] @ toString_base64 rest"
| "toString_base64 [a, b] =
     [base64_char (a div 4), base64_char ((a mod 4) * 16 + b div 16),
      base64_char ((b mod 16) * 4), CHR ''='']"
| "toString_base64 [a] =
     [base64_char (a div 4), base64_char ((a mod 4) * 16), CHR ''='', CHR ''='']"
| "toString_base64 [] = []"

definition base64_decode_text :: "backend \<Rightarrow> string \<Rightarrow> string" where
  "base64_decode_text bk s = buffer_toString bk (buffer_base64 bk s)"

text \<open>\<^verbatim>\<open>s.replace(/a/g, b)\<close> for single characters, and \<^verbatim>\<open>s.replace(/=+$/, "")\<close>.\<close>

definition replace_all :: "char \<Rightarrow> char \<Rightarrow> string \<Rightarrow> string" where
  "replace_all a b s = map (\<lambda>c. if c = a then b else c) s"

definition strip_trailing_eq :: "string \<Rightarrow> string" where
  "strip_trailing_eq s = rev (dropWhile (\<lambda>c. c = CHR ''='') (rev s))"

section \<open>The email adapter (gmail.service.ts)\<close>

record OAuth2Client =
  clientId :: string
  clientSecret :: string
  redirectUri :: string
  credentials :: "string option"

record GmailClient =
  version :: string
  auth :: OAuth2Client

record GmailService =
  gmail :: "GmailClient option"
  oauth2Client :: "OAuth2Client option"

definition env_set :: "env \<Rightarrow> string \<Rightarrow> bool" where
  "env_set e k = (case e k of None \<Rightarrow> False | Some v \<Rightarrow> v \<noteq> [])"

definition initializeGmail :: "env \<Rightarrow> GmailService" where
  "initializeGmail e =
     (if \<not> env_set e ''GMAIL_CLIENT_ID'' \<or> \<not> env_set e ''GMAIL_CLIENT_SECRET''
      then \<lparr>gmail = None, oauth2Client = None\<rparr>
      else
        let client = \<lparr>clientId = the (e ''GMAIL_CLIENT_ID''),
                       clientSecret = the (e ''GMAIL_CLIENT_SECRET''),
                       redirectUri = env_or e ''GMAIL_REDIRECT_URI'' ''urn:ietf:wg:oauth:2.0:oob'',
                       credentials = None\<rparr>
        in if env_set e ''GMAIL_REFRESH_TOKEN''
           then
             let authed = client\<lparr>credentials := e ''GMAIL_REFRESH_TOKEN''\<rparr>
             in \<lparr>gmail = Some \<lparr>version = ''v1'', auth = authed\<rparr>, oauth2Client = Some authed\<rparr>
           else \<lparr>gmail = None, oauth2Client = Some client\<rparr>)"

definition gmail_tools :: "Tool list" where
  "gmail_tools =
    [\<lparr>name = ''gmail_list_emails'',
      description = ''List emails from Gmail inbox. Can filter by query, maxResults, and labelIds.'',
      inputSchema = JObj [(''type'', JStr ''object''),
        (''properties'', JObj [
           (''query'', string_schema ''Search query string (e.g., \"from:example@gmail.com subject:test\")''),
           (''maxResults'', JObj [(''type'', JStr ''number''),
              (''description'', JStr ''Maximum number of emails to return (default: 10)''),
              (''default'', JNum 10)]),
           (''labelIds'', JObj [(''type'', JStr ''array''),
              (''items'', JObj [(''type'', JStr ''string'')]),
              (''description'', JStr ''Array of label IDs to filter by (e.g., [\"INBOX\", \"UNREAD\"])'')])])]\<rparr>,
     \<lparr>name = ''gmail_read_email'',
      description = ''Read a specific email by its message ID'',
      inputSchema = JObj [(''type'', JStr ''object''),
        (''properties'', JObj [
           (''messageId'', string_schema ''The ID of the email message to read''),
           (''format'', JObj [(''type'', JStr ''string''),
              (''enum'', JArr [JStr ''full'', JStr ''metadata'', JStr ''minimal'', JStr ''raw'']),
              (''description'', JStr ''Format of the email response (default: full)''),
              (''default'', JStr ''full'')])]),
        (''required'', JArr [JStr ''messageId''])]\<rparr>,
     \<lparr>name = ''gmail_send_email'',
      description = ''Send an email via Gmail'',
      inputSchema = JObj [(''type'', JStr ''object''),
        (''properties'', JObj [
           (''to'', string_schema ''Recipient email address''),
           (''subject'', string_schema ''Email subject''),
           (''body'', string_schema ''Email body (plain text)''),
           (''htmlBody'', string_schema ''Email body (HTML, optional)''),
           (''cc'', string_schema ''CC email address (optional)''),
           (''bcc'', string_schema ''BCC email address (optional)'')]),
        (''required'', JArr [JStr ''to'', JStr ''subject'', JStr ''body''])]\<rparr>,
     \<lparr>name = ''gmail_get_labels'',
      description = ''Get list of all Gmail labels'',
      inputSchema = JObj [(''type'', JStr ''object''), (''properties'', JObj [])]\<rparr>]"

definition GmailService_getTools :: "GmailService \<Rightarrow> Tool list" where
  "GmailService_getTools this = (case gmail this of None \<Rightarrow> [] | Some g \<Rightarrow> gmail_tools)"

text \<open>\<^verbatim>\<open>x || null\<close> on an optional string, and on an optional array.\<close>

definition str_or_null :: "string option \<Rightarrow> jsval" where
  "str_or_null x = (case x of None \<Rightarrow> JNull | Some s \<Rightarrow> if s = [] then JNull else JStr s)"

definition str_or_undefined :: "string option \<Rightarrow> jsval" where
  "str_or_undefined x = (case x of None \<Rightarrow> JUndefined | Some s \<Rightarrow> JStr s)"

text \<open>
  \<^verbatim>\<open>response.data.messages || []\<close> mapped to objects of \<open>id\<close> and \<open>threadId\<close>, each
  \<^verbatim>\<open>null\<close> when missing or empty.
\<close>

definition emailList :: "GmailMessageItem list option \<Rightarrow> jsval" where
  "emailList response =
     (let messages = (case response of None \<Rightarrow> [] | Some ms \<Rightarrow> ms)
      in JArr (map (\<lambda>msg. JObj [(''id'', str_or_null (item_id msg)),
                                  (''threadId'', str_or_null (item_threadId msg))])
                   messages))"

definition listEmails :: "backend \<Rightarrow> GmailService \<Rightarrow> args \<Rightarrow> world \<Rightarrow> ToolResult outcome" where
  "listEmails bk this args w =
     (case args of
        None \<Rightarrow> (Inl (destructure_error ''query''), w)
      | Some a \<Rightarrow>
          let q = get_prop a ''query'';
              maxResults = default_to (JNum 10) (get_prop a ''maxResults'');
              labelIds = get_prop a ''labelIds'' in
          (case gmail this of
             None \<Rightarrow> (Inl (null_error ''users''), w)
           | Some g \<Rightarrow>
               (case messages_list bk w q maxResults labelIds of
                  Inl e \<Rightarrow> (Inl e, w @ [MessagesList q maxResults labelIds])
                | Inr response \<Rightarrow>
                    (Inr (text_result (emailList response)), w @ [MessagesList q maxResults labelIds]))))"

text \<open>
  \<open>set_property\<close> is \<^verbatim>\<open>obj[k] = v\<close>: an existing key keeps its place and takes the new
  value, a new key goes last (keys that look like array indices, which the engine lists
  first, are not treated specially).
\<close>

fun set_property :: "(string \<times> jsval) list \<Rightarrow> string \<Rightarrow> jsval \<Rightarrow> (string \<times> jsval) list" where
  "set_property [] k v = [(k, v)]"
| "set_property ((k', v') # kvs) k v =
     (if k' = k then (k, v) # kvs else (k', v') # set_property kvs k v)"

definition has_text :: "string option \<Rightarrow> bool" where
  "has_text x = (case x of None \<Rightarrow> False | Some s \<Rightarrow> s \<noteq> [])"

definition parse_headers :: "backend \<Rightarrow> GmailHeader list \<Rightarrow> (string \<times> jsval) list" where
  "parse_headers bk hs =
     foldl (\<lambda>acc header.
              if has_text (header_name header) \<and> has_text (header_value header)
              then set_property acc (string_toLowerCase bk (the (header_name header))) (JStr (the (header_value header)))
              else acc)
           [] hs"

text \<open>\<^verbatim>\<open>x?.body?.data\<close>, for the payload and for a part.\<close>

definition body_data :: "GmailBody option \<Rightarrow> string option" where
  "body_data b = (case b of None \<Rightarrow> None | Some bd \<Rightarrow> data bd)"

definition payload_body_data :: "GmailPayload option \<Rightarrow> string option" where
  "payload_body_data p = (case p of None \<Rightarrow> None | Some pl \<Rightarrow> body_data (body pl))"

definition payload_parts :: "GmailPayload option \<Rightarrow> GmailMessagePart list option" where
  "payload_parts p = (case p of None \<Rightarrow> None | Some pl \<Rightarrow> parts pl)"

definition payload_headers :: "GmailPayload option \<Rightarrow> GmailHeader list option" where
  "payload_headers p = (case p of None \<Rightarrow> None | Some pl \<Rightarrow> headers pl)"

definition body_separator :: string where
  "body_separator = ''\<newline>---\<newline>''"

text \<open>
  The body extraction of \<open>readEmail\<close>: \<open>Some\<close> text when \<^verbatim>\<open>emailData.body\<close> is
  assigned, \<open>None\<close> when neither branch runs.
\<close>

definition extract_body :: "backend \<Rightarrow> GmailPayload option \<Rightarrow> string option" where
  "extract_body bk p =
     (if has_text (payload_body_data p)
      then Some (base64_decode_text bk (the (payload_body_data p)))
      else (case payload_parts p of
              None \<Rightarrow> None
            | Some ps \<Rightarrow>
                let bodyParts = map (\<lambda>part. base64_decode_text bk (the (body_data (part_body part))))
                                    (filter (\<lambda>part. has_text (body_data (part_body part))) ps)
                in Some (join body_separator bodyParts)))"

definition emailData :: "backend \<Rightarrow> GmailMessage \<Rightarrow> jsval" where
  "emailData bk message =
     JObj ([(''id'', str_or_null (id' message)),
            (''threadId'', str_or_null (threadId message)),
            (''labelIds'', (case labelIds message of None \<Rightarrow> JNull | Some ls \<Rightarrow> JArr (map JStr ls))),
            (''snippet'', str_or_null (snippet message))]
           @ (case payload_headers (payload message) of
                None \<Rightarrow> []
              | Some hs \<Rightarrow> [(''headers'', JObj (parse_headers bk hs))])
           @ (case extract_body bk (payload message) of
                None \<Rightarrow> []
              | Some b \<Rightarrow> [(''body'', JStr b)]))"

definition readEmail :: "backend \<Rightarrow> GmailService \<Rightarrow> args \<Rightarrow> world \<Rightarrow> ToolResult outcome" where
  "readEmail bk this args w =
     (case args of
        None \<Rightarrow> (Inl (destructure_error ''messageId''), w)
      | Some a \<Rightarrow>
          let messageId = get_prop a ''messageId'';
              format = default_to (JStr ''full'') (get_prop a ''format'') in
          (case gmail this of
             None \<Rightarrow> (Inl (null_error ''users''), w)
           | Some g \<Rightarrow>
               (case messages_get bk w messageId format of
                  Inl e \<Rightarrow> (Inl e, w @ [MessagesGet messageId format])
                | Inr message \<Rightarrow>
                    (Inr (text_result (emailData bk message)), w @ [MessagesGet messageId format]))))"

text \<open>
  String conversion of a runtime value, as a template literal and
  \<^verbatim>\<open>Array.prototype.join\<close> perform it.
\<close>

fun ToString :: "jsval \<Rightarrow> string" where
  "ToString JUndefined = ''undefined''"
| "ToString JNull = ''null''"
| "ToString (JBool b) = (if b then ''true'' else ''false'')"
| "ToString (JNum n) = show_int n"
| "ToString (JStr s) = s"
| "ToString (JArr xs) =
     join '','' (map (\<lambda>x. if x = JUndefined \<or> x = JNull then [] else ToString x) xs)"
| "ToString (JObj kvs) = ''[object Object]''"

definition array_join :: "string \<Rightarrow> jsval list \<Rightarrow> string" where
  "array_join sep xs =
     join sep (map (\<lambda>x. if x = JUndefined \<or> x = JNull then [] else ToString x) xs)"

text \<open>The lines of the message before filtering, the raw message, and its encoding.\<close>

definition message_lines :: "(string \<times> jsval) list \<Rightarrow> jsval list" where
  "message_lines a =
     (let to = get_prop a ''to''; subject = get_prop a ''subject''; body = get_prop a ''body'';
          htmlBody = get_prop a ''htmlBody''; cc = get_prop a ''cc''; bcc = get_prop a ''bcc'';
          toLine = ''To: '' @ ToString to;
          ccLine = (if truthy cc then ''Cc: '' @ ToString cc else []);
          bccLine = (if truthy bcc then ''Bcc: '' @ ToString bcc else []);
          subjectLine = ''Subject: '' @ ToString subject;
          contentType = (if truthy htmlBody then ''text/html'' else ''text/plain'');
          emailBody = (if truthy htmlBody then htmlBody else body)
      in [JStr toLine, JStr ccLine, JStr bccLine, JStr subjectLine,
          JStr (''Content-Type: '' @ contentType @ ''; charset=utf-8''), JStr [], emailBody])"

definition rawMessage :: "(string \<times> jsval) list \<Rightarrow> string" where
  "rawMessage a = array_join CRLF (filter (\<lambda>line. line \<noteq> JStr []) (message_lines a))"

definition encodedMessage :: "backend \<Rightarrow> (string \<times> jsval) list \<Rightarrow> string" where
  "encodedMessage bk a =
     strip_trailing_eq
       (replace_all CHR ''/'' CHR ''_''
          (replace_all CHR ''+'' CHR ''-'' (toString_base64 (Buffer_from bk (rawMessage a)))))"

definition sendEmail :: "backend \<Rightarrow> GmailService \<Rightarrow> args \<Rightarrow> world \<Rightarrow> ToolResult outcome" where
  "sendEmail bk this args w =
     (case args of
        None \<Rightarrow> (Inl (destructure_error ''to''), w)
      | Some a \<Rightarrow>
          (case gmail this of
             None \<Rightarrow> (Inl (null_error ''users''), w)
           | Some g \<Rightarrow>
               (case messages_send bk w (encodedMessage bk a) of
                  Inl e \<Rightarrow> (Inl e, w @ [MessagesSend (encodedMessage bk a)])
                | Inr response \<Rightarrow>
                    (Inr (text_result (JObj [(''success'', JBool True),
                                             (''messageId'', str_or_undefined (item_id response)),
                                             (''threadId'', str_or_undefined (item_threadId response))])),
                     w @ [MessagesSend (encodedMessage bk a)]))))"

definition getLabels :: "backend \<Rightarrow> GmailService \<Rightarrow> world \<Rightarrow> ToolResult outcome" where
  "getLabels bk this w =
     (case gmail this of
        None \<Rightarrow> (Inl (null_error ''users''), w)
      | Some g \<Rightarrow>
          (case labels_list bk w of
             Inl e \<Rightarrow> (Inl e, w @ [LabelsList])
           | Inr labels \<Rightarrow>
               (Inr (text_result (if truthy labels then labels else JArr [])), w @ [LabelsList])))"

definition gmail_not_initialized :: thrown where
  "gmail_not_initialized =
     Error ''Gmail service not initialized. Please check your Gmail credentials.''"

definition gmail_failed :: "thrown \<Rightarrow> thrown" where
  "gmail_failed e = Error (''Gmail operation failed: '' @ catch_message e)"

definition GmailService_handleTool ::
  "backend \<Rightarrow> GmailService \<Rightarrow> string \<Rightarrow> args \<Rightarrow> world \<Rightarrow> ToolResult outcome" where
  "GmailService_handleTool bk this nm args w =
     (case gmail this of
        None \<Rightarrow> (Inl gmail_not_initialized, w)
      | Some g \<Rightarrow>
          (case (if nm = ''gmail_list_emails'' then listEmails bk this args w
                 else if nm = ''gmail_read_email'' then readEmail bk this args w
                 else if nm = ''gmail_send_email'' then sendEmail bk this args w
                 else if nm = ''gmail_get_labels'' then getLabels bk this w
                 else (Inl (Error (''Unknown Gmail tool: '' @ nm)), w)) of
             (Inl e, w') \<Rightarrow> (Inl (gmail_failed e), w')
           | (Inr r, w') \<Rightarrow> (Inr r, w')))"

definition GmailService_readResource ::
  "backend \<Rightarrow> GmailService \<Rightarrow> string \<Rightarrow> world \<Rightarrow> ResourceResult outcome" where
  "GmailService_readResource bk this u w =
     (if u = ''gmail://inbox'' then
        (case listEmails bk this (Some [(''maxResults'', JNum 20)]) w of
           (Inl e, w') \<Rightarrow> (Inl e, w')
         | (Inr emails, w') \<Rightarrow>
             (case content emails of
                [] \<Rightarrow> (Inl (TypeError ''Cannot read properties of undefined (reading 'text')''), w')
              | c # cs \<Rightarrow>
                  (Inr \<lparr>contents = [\<lparr>uri = u, mimeType = ''application/json'',
                                       resource_text = text' c\<rparr>]\<rparr>, w')))
      else (Inl (Error (''Unknown Gmail resource: '' @ u)), w))"

definition GmailService_cleanup :: "GmailService \<Rightarrow> GmailService" where
  "GmailService_cleanup this = this"

section \<open>The dispatch router (index.ts and http-server.ts)\<close>

record MCPServer =
  gmailService :: GmailService
  postgresService :: PostgresService

definition new_MCPServer :: "backend \<Rightarrow> env \<Rightarrow> world \<Rightarrow> MCPServer \<times> world" where
  "new_MCPServer bk e w =
     (let g = initializeGmail e; (p, w') = initializePostgres bk e w
      in (\<lparr>gmailService = g, postgresService = p\<rparr>, w'))"

definition list_tools :: "MCPServer \<Rightarrow> Tool list" where
  "list_tools srv =
     GmailService_getTools (gmailService srv) @ PostgresService_getTools (postgresService srv)"

definition unknown_tool :: "string \<Rightarrow> thrown" where
  "unknown_tool nm = Error (''Unknown tool: '' @ nm)"

text \<open>The handler of index.ts passes the argument bag on as it came.\<close>

definition call_tool :: "backend \<Rightarrow> MCPServer \<Rightarrow> string \<Rightarrow> args \<Rightarrow> world \<Rightarrow> ToolResult outcome" where
  "call_tool bk srv nm args w =
     (if startsWith nm ''gmail_'' then GmailService_handleTool bk (gmailService srv) nm args w
      else if startsWith nm ''postgres_'' then PostgresService_handleTool bk (postgresService srv) nm args w
      else (Inl (unknown_tool nm), w))"

text \<open>
  The handler of http-server.ts replaces a missing bag by the empty object first (and logs
  the call, which is not modelled).
\<close>

definition http_call_tool :: "backend \<Rightarrow> MCPServer \<Rightarrow> string \<Rightarrow> args \<Rightarrow> world \<Rightarrow> ToolResult outcome" where
  "http_call_tool bk srv nm args w =
     (let typedArgs = Some (case args of None \<Rightarrow> [] | Some a \<Rightarrow> a) in
      if startsWith nm ''gmail_'' then GmailService_handleTool bk (gmailService srv) nm typedArgs w
      else if startsWith nm ''postgres_'' then PostgresService_handleTool bk (postgresService srv) nm typedArgs w
      else (Inl (unknown_tool nm), w))"

definition read_resource ::
  "backend \<Rightarrow> env \<Rightarrow> MCPServer \<Rightarrow> string \<Rightarrow> world \<Rightarrow> ResourceResult outcome" where
  "read_resource bk e srv u w =
     (if startsWith u ''gmail://'' then GmailService_readResource bk (gmailService srv) u w
      else if startsWith u ''postgres://'' then PostgresService_readResource bk e (postgresService srv) u w
      else (Inl (Error (''Unknown resource: '' @ u)), w))"

text \<open>Shutdown: the pool is drained first, then the email adapter's empty cleanup runs.\<close>

definition server_cleanup :: "backend \<Rightarrow> MCPServer \<Rightarrow> world \<Rightarrow> (thrown + unit) \<times> MCPServer \<times> world" where
  "server_cleanup bk srv w =
     (case PostgresService_cleanup bk (postgresService srv) w of
        (Inl e, p, w') \<Rightarrow> (Inl e, srv\<lparr>postgresService := p\<rparr>, w')
      | (Inr u, p, w') \<Rightarrow>
          (Inr (), srv\<lparr>postgresService := p, gmailService := GmailService_cleanup (gmailService srv)\<rparr>, w'))"

section \<open>Notions used to state the properties\<close>

text \<open>
  Reading a message back: \<open>split_crlf\<close> cuts a text at every CR LF pair, scanning from
  the left (\<^verbatim>\<open>text.split("\r\n")\<close>); \<open>has_crlf\<close> says that a text contains such a pair.
\<close>

fun split_crlf :: "string \<Rightarrow> string list" where
  "split_crlf [] = [[]]"
| "split_crlf [c] = [[c]]"
| "split_crlf (c # d # cs) =
     (if c = CHR 0x0D \<and> d = CHR 0x0A then [] # split_crlf cs
      else (case split_crlf (d # cs) of [] \<Rightarrow> [[c]] | l # ls \<Rightarrow> (c # l) # ls))"

fun has_crlf :: "string \<Rightarrow> bool" where
  "has_crlf (c # d # cs) = ((c = CHR 0x0D \<and> d = CHR 0x0A) \<or> has_crlf (d # cs))"
| "has_crlf [c] = False"
| "has_crlf [] = False"

text \<open>
  The lines the adapter keeps for a well-typed send request: \<open>htmlBody\<close>, \<open>cc\<close> and
  \<open>bcc\<close> count only when they are given and not empty (\<open>has_text\<close>).
\<close>

definition content_type_line :: "string option \<Rightarrow> string" where
  "content_type_line html =
     ''Content-Type: '' @ (if has_text html then ''text/html'' else ''text/plain'') @ ''; charset=utf-8''"

definition header_lines :: "string \<Rightarrow> string \<Rightarrow> string option \<Rightarrow> string option \<Rightarrow> string option \<Rightarrow> string list" where
  "header_lines to subject html cc bcc =
     [''To: '' @ to]
     @ (if has_text cc then [''Cc: '' @ the cc] else [])
     @ (if has_text bcc then [''Bcc: '' @ the bcc] else [])
     @ [''Subject: '' @ subject, content_type_line html]"

definition chosen_body :: "string \<Rightarrow> string option \<Rightarrow> string" where
  "chosen_body plain html = (if has_text html then the html else plain)"

definition kept_lines :: "string \<Rightarrow> string \<Rightarrow> string \<Rightarrow> string option \<Rightarrow> string option \<Rightarrow> string option \<Rightarrow> string list" where
  "kept_lines to subject plain html cc bcc =
     header_lines to subject html cc bcc
     @ (if chosen_body plain html = [] then [] else [chosen_body plain html])"

text \<open>
  A well-typed argument bag of \<open>gmail_send_email\<close>: the three required strings, and each
  optional field either absent or a string.
\<close>

definition send_args ::
  "(string \<times> jsval) list \<Rightarrow> string \<Rightarrow> string \<Rightarrow> string \<Rightarrow> string option \<Rightarrow> string option \<Rightarrow> string option \<Rightarrow> bool" where
  "send_args a to subject plain html cc bcc =
     (get_prop a ''to'' = JStr to \<and> get_prop a ''subject'' = JStr subject
      \<and> get_prop a ''body'' = JStr plain \<and> get_prop a ''htmlBody'' = str_or_undefined html
      \<and> get_prop a ''cc'' = str_or_undefined cc \<and> get_prop a ''bcc'' = str_or_undefined bcc)"

text \<open>
  The same lines as the specification words them, where an optional field counts as soon
  as it is given: a Cc and a Bcc line when given, \<open>text/html\<close> if \<open>htmlBody\<close> is given,
  and \<open>htmlBody\<close> before \<open>body\<close> when both are present.
\<close>

definition spec_header_lines :: "string \<Rightarrow> string \<Rightarrow> string option \<Rightarrow> string option \<Rightarrow> string option \<Rightarrow> string list" where
  "spec_header_lines to subject html cc bcc =
     [''To: '' @ to]
     @ (case cc of None \<Rightarrow> [] | Some c \<Rightarrow> [''Cc: '' @ c])
     @ (case bcc of None \<Rightarrow> [] | Some b \<Rightarrow> [''Bcc: '' @ b])
     @ [''Subject: '' @ subject,
        ''Content-Type: '' @ (if html = None then ''text/plain'' else ''text/html'') @ ''; charset=utf-8'']"

definition spec_body :: "string \<Rightarrow> string option \<Rightarrow> string" where
  "spec_body plain html = (case html of None \<Rightarrow> plain | Some h \<Rightarrow> h)"

text \<open>
  The lines a reader of the specification expects from splitting the decoded message at
  CR LF: the header lines as the specification words them, then the lines of the body.
\<close>

definition spec_parsed_message ::
  "string \<Rightarrow> string \<Rightarrow> string \<Rightarrow> string option \<Rightarrow> string option \<Rightarrow> string option \<Rightarrow> string list" where
  "spec_parsed_message to subject plain html cc bcc =
     spec_header_lines to subject html cc bcc
     @ (if spec_body plain html = [] then [] else split_crlf (spec_body plain html))"

text \<open>
  The decoded texts of the parts that carry body data, in the parts' order, written as
  the specification describes them (a part carries data when its data string is present
  and not empty). Decoding is the engine's, as in the adapter.
\<close>

definition carried_texts :: "backend \<Rightarrow> GmailMessagePart list \<Rightarrow> string list" where
  "carried_texts bk ps =
     [base64_decode_text bk d. part \<leftarrow> ps, b \<leftarrow> (case part_body part of None \<Rightarrow> [] | Some b \<Rightarrow> [b]),
        d \<leftarrow> (case data b of None \<Rightarrow> [] | Some d \<Rightarrow> [d]), d \<noteq> []]"

text \<open>
  Base64url without padding, as RFC 4648 defines it and independently of the adapter's
  code: the bytes are cut into six-bit values (\<open>sextets\<close>, the last one filled with zero
  bits), and each value is written with its character of the URL-safe alphabet.
  \<open>padding\<close> is the padding that standard base64 adds after them.
\<close>

definition base64url_alphabet :: string where
  "base64url_alphabet = ''ABCDEFGHIJKLMNOPQRSTUVWXYZabcdefghijklmnopqrstuvwxyz0123456789-_''"

definition base64url_char :: "nat \<Rightarrow> char" where
  "base64url_char n = base64url_alphabet ! n"

fun sextets :: "nat list \<Rightarrow> nat list" where
  "sextets (a # b # c # rest) =
     [a div 4, (a mod 4) * 16 + b div 16, (b mod 16) * 4 + c div 64, c mod 64] @ sextets rest"
| "sextets [a, b] = [a div 4, (a mod 4) * 16 + b div 16, (b mod 16) * 4]"
| "sextets [a] = [a div 4, (a mod 4) * 16]"
| "sextets [] = []"

fun padding :: "nat list \<Rightarrow> string" where
  "padding (a # b # c # rest) = padding rest"
| "padding [a, b] = ''=''"
| "padding [a] = ''==''"
| "padding [] = []"

text \<open>
  The strict decoder of that encoding: it accepts a text made of characters of the
  URL-safe alphabet only (so no \<open>+\<close>, \<open>/\<close> or \<open>=\<close>) whose length is not 1 modulo 4, and
  gives the bytes.
\<close>

fun index_of :: "'a \<Rightarrow> 'a list \<Rightarrow> nat option" where
  "index_of c [] = None"
| "index_of c (x # xs) = (if c = x then Some 0 else map_option Suc (index_of c xs))"

fun decode_sextets :: "nat list \<Rightarrow> nat list" where
  "decode_sextets (a # b # c # d # rest) =
     [a * 4 + b div 16, (b mod 16) * 16 + c div 4, (c mod 4) * 64 + d] @ decode_sextets rest"
| "decode_sextets [a, b, c] = [a * 4 + b div 16, (b mod 16) * 16 + c div 4]"
| "decode_sextets [a, b] = [a * 4 + b div 16]"
| "decode_sextets [a] = []"
| "decode_sextets [] = []"

definition base64url_index :: "char \<Rightarrow> nat option" where
  "base64url_index c = index_of c base64url_alphabet"

definition base64url_decode :: "string \<Rightarrow> nat list option" where
  "base64url_decode s =
     (if list_all (\<lambda>c. base64url_index c \<noteq> None) s \<and> length s mod 4 \<noteq> 1
      then Some (decode_sextets (map (\<lambda>c. the (base64url_index c)) s))
      else None)"

text \<open>
  Reading a payload back: \<open>decoded_text\<close> decodes it strictly to bytes and reads the bytes
  as text with the engine's \<^verbatim>\<open>toString("utf-8")\<close>; \<open>decoded_lines\<close> splits that text at
  CR LF. Both are \<open>None\<close> for a payload that is not base64url.
\<close>

definition decoded_text :: "backend \<Rightarrow> string \<Rightarrow> string option" where
  "decoded_text bk s = map_option (buffer_toString bk) (base64url_decode s)"

definition decoded_lines :: "backend \<Rightarrow> string \<Rightarrow> string list option" where
  "decoded_lines bk s = map_option split_crlf (decoded_text bk s)"

text \<open>
  An engine is faithful on ASCII when its \<^verbatim>\<open>trim\<close> and \<^verbatim>\<open>toUpperCase\<close> are the ASCII
  functions on ASCII text, which is what ECMAScript prescribes.
\<close>

definition ascii_faithful :: "backend \<Rightarrow> bool" where
  "ascii_faithful bk =
     (\<forall>s. is_ascii s \<longrightarrow> string_trim bk s = ascii_trim s \<and> string_toUpperCase bk s = ascii_upper s)"

text \<open>
  \<open>runs_statement\<close> is the outcome of a call that submits one statement to the pool: the
  world grows by exactly this request, and the result is the driver's own, an error passed
  through \<open>wrap\<close> or a result set turned into the one text item by \<open>f\<close>.
\<close>

definition runs_statement ::
  "backend \<Rightarrow> string \<Rightarrow> jsval \<Rightarrow> world \<Rightarrow> (thrown \<Rightarrow> thrown) \<Rightarrow> (QueryResult \<Rightarrow> jsval) \<Rightarrow> ToolResult outcome" where
  "runs_statement bk q ps w wrap f =
     (case pool_query bk w q ps of Inl e \<Rightarrow> Inl (wrap e) | Inr r \<Rightarrow> Inr (text_result (f r)),
      w @ [PoolQuery q ps])"

definition unwrapped :: "thrown \<Rightarrow> thrown" where
  "unwrapped e = e"

text \<open>A property of a JSON object, \<^verbatim>\<open>undefined\<close> on anything else.\<close>

definition json_field :: "jsval \<Rightarrow> string \<Rightarrow> jsval" where
  "json_field v k = (case v of JObj kvs \<Rightarrow> get_prop kvs k | _ \<Rightarrow> JUndefined)"

definition inbox_envelope :: "string \<Rightarrow> ResourceResult" where
  "inbox_envelope t =
     \<lparr>contents = [\<lparr>uri = ''gmail://inbox'', mimeType = ''application/json'', resource_text = t\<rparr>]\<rparr>"

text \<open>
  The public operations of the database adapter, for statements about every later use of
  an adapter instance. \<open>pg_run\<close> performs a sequence of them and returns the adapter and
  the world afterwards.
\<close>

datatype pg_op =
    GetTools
  | HandleTool string args
  | ReadResource string
  | Cleanup

fun pg_step :: "backend \<Rightarrow> env \<Rightarrow> PostgresService \<times> world \<Rightarrow> pg_op \<Rightarrow> PostgresService \<times> world" where
  "pg_step bk e (this, w) GetTools = (this, w)"
| "pg_step bk e (this, w) (HandleTool nm args) = (this, snd (PostgresService_handleTool bk this nm args w))"
| "pg_step bk e (this, w) (ReadResource u) = (this, snd (PostgresService_readResource bk e this u w))"
| "pg_step bk e (this, w) Cleanup = snd (PostgresService_cleanup bk this w)"

definition pg_run :: "backend \<Rightarrow> env \<Rightarrow> PostgresService \<times> world \<Rightarrow> pg_op list \<Rightarrow> PostgresService \<times> world" where
  "pg_run bk e s ops = foldl (pg_step bk e) s ops"

subsection \<open>A concrete world for examples\<close>

text \<open>
  The engine of the examples works on ASCII text and on well-formed base64 data only,
  where it does what the real engine does: the ASCII string functions, a string's
  characters as its bytes, bytes below 128 as characters, and a base64 decoder that reads
  both alphabets up to the first \<open>=\<close>. The examples give it nothing else.
\<close>

definition unbase64 :: "char \<Rightarrow> nat option" where
  "unbase64 c =
     (if c = CHR ''-'' then Some 62 else if c = CHR ''_'' then Some 63
      else index_of c base64_alphabet)"

definition sample_base64 :: "string \<Rightarrow> nat list" where
  "sample_base64 s =
     decode_sextets (List.map_filter unbase64 (takeWhile (\<lambda>c. c \<noteq> CHR ''='') s))"

definition sample_toString :: "nat list \<Rightarrow> string" where
  "sample_toString bs = map char_of bs"

definition sample_result :: QueryResult where
  "sample_result =
     \<lparr>rows = [JObj [(''table_name'', JStr ''orders''), (''table_type'', JStr ''BASE TABLE'')],
              JObj [(''table_name'', JStr ''users''), (''table_type'', JStr ''BASE TABLE'')]],
      rowCount = Some 2,
      fields' = [\<lparr>field_name = ''table_name'', dataTypeID = 19\<rparr>,
                 \<lparr>field_name = ''table_type'', dataTypeID = 1043\<rparr>],
      command = ''SELECT''\<rparr>"

definition sample_message :: GmailMessage where
  "sample_message =
     \<lparr>id' = Some ''m1'', threadId = Some ''t1'', labelIds = Some [''INBOX''], snippet = Some ''hi'',
      payload = Some \<lparr>headers = None, body = Some \<lparr>data = Some ''aGk''\<rparr>, parts = None\<rparr>\<rparr>"

definition sample_backend :: backend where
  "sample_backend =
     \<lparr>pool_query = (\<lambda>w q ps. Inr sample_result),
      pool_end = (\<lambda>w. Inr ()),
      messages_list = (\<lambda>w q m l. Inr (Some [\<lparr>item_id = Some ''m1'', item_threadId = Some ''t1''\<rparr>])),
      messages_get = (\<lambda>w i f. Inr sample_message),
      messages_send = (\<lambda>w raw. Inr \<lparr>item_id = Some ''m2'', item_threadId = Some ''t2''\<rparr>),
      labels_list = (\<lambda>w. Inr JUndefined),
      string_trim = ascii_trim,
      string_toUpperCase = ascii_upper,
      string_toLowerCase = ascii_lower,
      buffer_utf8 = (\<lambda>s. s),
      buffer_base64 = sample_base64,
      buffer_toString = sample_toString\<rparr>"

definition sample_env :: env where
  "sample_env = [''POSTGRES_PASSWORD'' \<mapsto> ''secret'', ''GMAIL_CLIENT_ID'' \<mapsto> ''id'',
                 ''GMAIL_CLIENT_SECRET'' \<mapsto> ''cs'', ''GMAIL_REFRESH_TOKEN'' \<mapsto> ''rt'']"

definition sample_postgres :: PostgresService where
  "sample_postgres = fst (initializePostgres sample_backend sample_env [])"

definition sample_gmail :: GmailService where
  "sample_gmail = initializeGmail sample_env"

definition sample_server :: MCPServer where
  "sample_server = \<lparr>gmailService = sample_gmail, postgresService = sample_postgres\<rparr>"

section \<open>Auxiliary facts\<close>

subsection \<open>The database adapter and the routers\<close>

lemma postgres_name_not_gmail: "startsWith nm ''postgres_'' \<Longrightarrow> \<not> startsWith nm ''gmail_''"
  by (cases nm) (auto simp: startsWith_def)

lemma pool_run_Some:
  "pool this = Some p \<Longrightarrow> pool_run this bk q ps w f = runs_statement bk q ps w unwrapped f"
  by (cases "pool_query bk w q ps")
     (simp_all add: pool_run_def call_pool_query_def runs_statement_def unwrapped_def)

lemma query_string:
  "get_prop a ''query'' = JStr q \<Longrightarrow>
   query bk this (Some a) w =
     (if \<not> startsWith (string_toUpperCase bk (string_trim bk q)) ''SELECT'' then (Inl query_rejected, w)
      else pool_run this bk q (default_to (JArr []) (get_prop a ''params'')) w QueryResponse)"
  by (simp add: query_def Let_def)

lemma execute_string:
  "get_prop a ''query'' = JStr q \<Longrightarrow>
   execute bk this (Some a) w =
     (if startsWith (string_toUpperCase bk (string_trim bk q)) ''SELECT'' then (Inl execute_rejected, w)
      else pool_run this bk q (default_to (JArr []) (get_prop a ''params'')) w ExecuteResponse)"
  by (simp add: execute_def Let_def)

lemma wrap_runs_statement:
  "(case runs_statement bk q ps w unwrapped f of
      (Inl e, w') \<Rightarrow> (Inl (postgres_failed e), w') | (Inr r, w') \<Rightarrow> (Inr r, w'))
   = runs_statement bk q ps w postgres_failed f"
  by (cases "pool_query bk w q ps") (simp_all add: runs_statement_def unwrapped_def)

lemma handleTool_query:
  "pool this = Some p \<Longrightarrow>
   PostgresService_handleTool bk this ''postgres_query'' args w =
     (case query bk this args w of
        (Inl e, w') \<Rightarrow> (Inl (postgres_failed e), w') | (Inr r, w') \<Rightarrow> (Inr r, w'))"
  by (simp add: PostgresService_handleTool_def)

lemma handleTool_execute:
  "pool this = Some p \<Longrightarrow>
   PostgresService_handleTool bk this ''postgres_execute'' args w =
     (case execute bk this args w of
        (Inl e, w') \<Rightarrow> (Inl (postgres_failed e), w') | (Inr r, w') \<Rightarrow> (Inr r, w'))"
  by (simp add: PostgresService_handleTool_def)

lemma handleTool_get_tables:
  "pool this = Some p \<Longrightarrow>
   PostgresService_handleTool bk this ''postgres_get_tables'' args w =
     (case getTables bk this args w of
        (Inl e, w') \<Rightarrow> (Inl (postgres_failed e), w') | (Inr r, w') \<Rightarrow> (Inr r, w'))"
  by (simp add: PostgresService_handleTool_def)

lemma handleTool_unconfigured:
  "pool this = None \<Longrightarrow> PostgresService_handleTool bk this nm args w = (Inl postgres_not_initialized, w)"
  by (simp add: PostgresService_handleTool_def)

lemma gmail_handleTool_unconfigured:
  "gmail this = None \<Longrightarrow> GmailService_handleTool bk this nm args w = (Inl gmail_not_initialized, w)"
  by (simp add: GmailService_handleTool_def)

lemma call_tool_postgres:
  "startsWith nm ''postgres_'' \<Longrightarrow>
   call_tool bk srv nm args w = PostgresService_handleTool bk (postgresService srv) nm args w"
  by (simp add: call_tool_def postgres_name_not_gmail)

lemma http_call_tool_postgres:
  "startsWith nm ''postgres_'' \<Longrightarrow>
   http_call_tool bk srv nm args w =
     PostgresService_handleTool bk (postgresService srv) nm (Some (case args of None \<Rightarrow> [] | Some a \<Rightarrow> a)) w"
  by (simp add: http_call_tool_def postgres_name_not_gmail)

lemma starts_postgres_query: "startsWith ''postgres_query'' ''postgres_''"
  by (simp add: startsWith_def)

lemma starts_postgres_get_tables: "startsWith ''postgres_get_tables'' ''postgres_''"
  by (simp add: startsWith_def)

lemma sample_pool: "pool sample_postgres \<noteq> None"
  by (simp add: sample_postgres_def initializePostgres_def sample_env_def)

lemma sample_gmail_client: "gmail sample_gmail \<noteq> None"
  by (simp add: sample_gmail_def initializeGmail_def sample_env_def env_set_def Let_def)

lemma sample_engine:
  "string_trim sample_backend = ascii_trim" "string_toUpperCase sample_backend = ascii_upper"
  "string_toLowerCase sample_backend = ascii_lower" "buffer_utf8 sample_backend = (\<lambda>s. s)"
  "buffer_base64 sample_backend = sample_base64" "buffer_toString sample_backend = sample_toString"
  by (simp_all add: sample_backend_def)

lemma sample_ascii_faithful: "ascii_faithful sample_backend"
  by (simp add: ascii_faithful_def sample_engine)

lemma ascii_delete: "\<not> startsWith (ascii_upper (ascii_trim ''DELETE FROM x'')) ''SELECT''"
  by code_simp

lemma ascii_select: "startsWith (ascii_upper (ascii_trim ''  select 1'')) ''SELECT''"
  by code_simp

lemma delete_is_no_select:
  "\<not> startsWith (string_toUpperCase sample_backend (string_trim sample_backend ''DELETE FROM x'')) ''SELECT''"
  by (simp only: sample_engine ascii_delete not_False_eq_True)

lemma select_is_select:
  "startsWith (string_toUpperCase sample_backend (string_trim sample_backend ''  select 1'')) ''SELECT''"
  by (simp only: sample_engine ascii_select)

lemma ascii_trim_ascii: "is_ascii s \<Longrightarrow> is_ascii (ascii_trim s)"
  by (auto simp: is_ascii_def ascii_trim_def list_all_iff dest!: set_dropWhileD)

lemma faithful_test:
  assumes "ascii_faithful bk" and "is_ascii q"
  shows "string_toUpperCase bk (string_trim bk q) = ascii_upper (ascii_trim q)"
proof -
  have "string_trim bk q = ascii_trim q"
    using assms unfolding ascii_faithful_def by blast
  moreover have "string_toUpperCase bk (ascii_trim q) = ascii_upper (ascii_trim q)"
    using assms(1) ascii_trim_ascii [OF assms(2)] unfolding ascii_faithful_def by blast
  ultimately show ?thesis
    by simp
qed

lemma faithful_delete:
  assumes "ascii_faithful bk"
  shows "\<not> startsWith (string_toUpperCase bk (string_trim bk ''DELETE FROM x'')) ''SELECT''"
proof -
  have "is_ascii ''DELETE FROM x''"
    by code_simp
  then show ?thesis
    by (simp only: faithful_test [OF assms] ascii_delete not_False_eq_True)
qed

lemma initializePostgres_unset:
  "\<not> env_set e ''POSTGRES_PASSWORD'' \<Longrightarrow> initializePostgres bk e w = (\<lparr>pool = None\<rparr>, w)"
  by (simp add: initializePostgres_def env_set_def split: option.splits)

lemma initializePostgres_set:
  "env_set e ''POSTGRES_PASSWORD'' \<Longrightarrow> pool (fst (initializePostgres bk e w)) \<noteq> None"
  by (simp add: initializePostgres_def env_set_def split: option.splits)

lemma initializeGmail_client:
  "gmail (initializeGmail e) \<noteq> None \<longleftrightarrow>
     env_set e ''GMAIL_CLIENT_ID'' \<and> env_set e ''GMAIL_CLIENT_SECRET'' \<and> env_set e ''GMAIL_REFRESH_TOKEN''"
  by (auto simp: initializeGmail_def Let_def)

lemma postgres_tools_nonempty: "postgres_tools \<noteq> []"
  by (simp add: postgres_tools_def)

lemma gmail_tools_nonempty: "gmail_tools \<noteq> []"
  by (simp add: gmail_tools_def)

lemma pg_step_unconfigured: "pool this = None \<Longrightarrow> pg_step bk e (this, w) op = (this, w)"
  by (cases op)
     (simp_all add: handleTool_unconfigured PostgresService_readResource_def
        PostgresService_cleanup_def)

lemma pg_run_unconfigured: "pool this = None \<Longrightarrow> pg_run bk e (this, w) ops = (this, w)"
  unfolding pg_run_def by (induction ops) (simp_all add: pg_step_unconfigured)

lemma cleanup_result:
  "PostgresService_cleanup bk this w = (Inr (), this', w') \<Longrightarrow> pool this' = None"
  by (auto simp: PostgresService_cleanup_def split: option.splits prod.splits sum.splits)

subsection \<open>The email adapter\<close>

lemma list20_props:
  "get_prop [(''maxResults'', JNum 20)] ''query'' = JUndefined"
  "default_to (JNum 10) (get_prop [(''maxResults'', JNum 20)] ''maxResults'') = JNum 20"
  "get_prop [(''maxResults'', JNum 20)] ''labelIds'' = JUndefined"
  by (simp_all add: get_prop_def default_to_def)

lemma listEmails_20:
  "gmail this = Some g \<Longrightarrow>
   listEmails bk this (Some [(''maxResults'', JNum 20)]) w =
     (case messages_list bk w JUndefined (JNum 20) JUndefined of
        Inl e \<Rightarrow> Inl e | Inr response \<Rightarrow> Inr (text_result (emailList response)),
      w @ [MessagesList JUndefined (JNum 20) JUndefined])"
  by (simp add: listEmails_def Let_def list20_props split: sum.splits)

lemma listEmails_unconfigured:
  "gmail this = None \<Longrightarrow>
   listEmails bk this (Some [(''maxResults'', JNum 20)]) w = (Inl (null_error ''users''), w)"
  unfolding listEmails_def Let_def by simp

lemma handleTool_list:
  "gmail this = Some g \<Longrightarrow>
   GmailService_handleTool bk this ''gmail_list_emails'' args w =
     (case listEmails bk this args w of
        (Inl e, w') \<Rightarrow> (Inl (gmail_failed e), w') | (Inr r, w') \<Rightarrow> (Inr r, w'))"
  by (simp add: GmailService_handleTool_def)

lemma readResource_inbox:
  "GmailService_readResource bk this ''gmail://inbox'' w =
     (case listEmails bk this (Some [(''maxResults'', JNum 20)]) w of
        (Inl e, w') \<Rightarrow> (Inl e, w')
      | (Inr emails, w') \<Rightarrow>
          (case content emails of
             [] \<Rightarrow> (Inl (TypeError ''Cannot read properties of undefined (reading 'text')''), w')
           | c # cs \<Rightarrow> (Inr (inbox_envelope (text' c)), w')))"
  by (simp add: GmailService_readResource_def inbox_envelope_def
      split: prod.splits sum.splits list.splits)

lemma carried_texts_filter:
  "carried_texts bk ps =
     map (\<lambda>part. base64_decode_text bk (the (body_data (part_body part))))
         (filter (\<lambda>part. has_text (body_data (part_body part))) ps)"
  unfolding carried_texts_def
  by (induction ps) (auto simp: body_data_def has_text_def split: option.splits)

lemma extract_body_parts:
  "\<not> has_text (payload_body_data p) \<Longrightarrow> payload_parts p = Some ps \<Longrightarrow>
   extract_body bk p = Some (join body_separator (carried_texts bk ps))"
  by (simp add: extract_body_def carried_texts_filter Let_def)

lemma extract_body_top:
  "has_text (payload_body_data p) \<Longrightarrow>
   extract_body bk p = Some (base64_decode_text bk (the (payload_body_data p)))"
  by (simp add: extract_body_def)

lemma emailData_body:
  "extract_body bk (payload m) = Some b \<Longrightarrow> json_field (emailData bk m) ''body'' = JStr b"
  by (simp add: emailData_def json_field_def get_prop_def map_of_append split: option.splits)

lemma sample_decode_hi: "sample_toString (sample_base64 ''aGk'') = ''hi''"
  by code_simp

lemma sample_decode_yo: "sample_toString (sample_base64 ''eW8'') = ''yo''"
  by code_simp

lemma decode_hi: "base64_decode_text sample_backend ''aGk'' = ''hi''"
  by (simp only: base64_decode_text_def sample_engine sample_decode_hi)

lemma decode_yo: "base64_decode_text sample_backend ''eW8'' = ''yo''"
  by (simp only: base64_decode_text_def sample_engine sample_decode_yo)

subsection \<open>Base64 round trip\<close>

lemma toString_base64_sextets:
  "toString_base64 bs = map base64_char (sextets bs) @ padding bs"
  by (induction bs rule: toString_base64.induct) simp_all

lemma sextets_bound:
  "\<forall>b\<in>set bs. b < 256 \<Longrightarrow> \<forall>x\<in>set (sextets bs). x < 64"
proof (induction bs rule: sextets.induct)
  case (1 a b c rest)
  then have "a < 256" "b < 256" "c < 256" and r: "\<forall>x\<in>set (sextets rest). x < 64"
    by simp_all
  then have "a div 4 < 64" "(a mod 4) * 16 + b div 16 < 64" "(b mod 16) * 4 + c div 64 < 64"
    "c mod 64 < 64"
    by simp_all
  with r show ?case by simp
next
  case (2 a b)
  then have "a < 256" "b < 256" by simp_all
  then have "a div 4 < 64" "(a mod 4) * 16 + b div 16 < 64" "(b mod 16) * 4 < 64"
    by simp_all
  then show ?case by simp
next
  case (3 a)
  then have "a < 256" by simp
  then have "a div 4 < 64" "(a mod 4) * 16 < 64" by simp_all
  then show ?case by simp
next
  case 4
  then show ?case by simp
qed

lemma sextet_arith3:
  fixes a b c :: nat
  assumes "b < 256" "c < 256"
  shows "a div 4 * 4 + ((a mod 4) * 16 + b div 16) div 16 = a"
    "(((a mod 4) * 16 + b div 16) mod 16) * 16 + ((b mod 16) * 4 + c div 64) div 4 = b"
    "(((b mod 16) * 4 + c div 64) mod 4) * 64 + c mod 64 = c"
proof -
  have b: "b div 16 < 16" and c: "c div 64 < 4"
    using assms by simp_all
  show "a div 4 * 4 + ((a mod 4) * 16 + b div 16) div 16 = a"
    using b by simp
  show "(((a mod 4) * 16 + b div 16) mod 16) * 16 + ((b mod 16) * 4 + c div 64) div 4 = b"
    using b c by simp
  show "(((b mod 16) * 4 + c div 64) mod 4) * 64 + c mod 64 = c"
    using c by simp
qed

lemma sextet_arith2:
  fixes a b :: nat
  assumes "b < 256"
  shows "(((a mod 4) * 16 + b div 16) mod 16) * 16 + ((b mod 16) * 4) div 4 = b"
    "a div 4 * 4 + ((a mod 4) * 16) div 16 = a"
proof -
  have b: "b div 16 < 16"
    using assms by simp
  show "(((a mod 4) * 16 + b div 16) mod 16) * 16 + ((b mod 16) * 4) div 4 = b"
    using b by simp
  show "a div 4 * 4 + ((a mod 4) * 16) div 16 = a"
    by simp
qed

lemma decode_sextets_inverse:
  "\<forall>b\<in>set bs. b < 256 \<Longrightarrow> decode_sextets (sextets bs) = bs"
proof (induction bs rule: sextets.induct)
  case (1 a b c rest)
  then have l: "b < 256" "c < 256" and r: "decode_sextets (sextets rest) = rest"
    by simp_all
  show ?case
    using r sextet_arith3 [OF l] by simp
next
  case (2 a b)
  then have l: "b < 256" by simp
  show ?case
    using sextet_arith3(1) [OF l l] sextet_arith2(1) [OF l] by simp
next
  case (3 a)
  show ?case
    using sextet_arith2(2) by simp
next
  case 4
  then show ?case by simp
qed

lemma alphabet_table:
  "\<forall>n\<in>set [0..<64]. base64url_index (base64url_char n) = Some n
      \<and> base64url_char n \<noteq> CHR ''='' \<and> base64url_char n \<noteq> CHR ''+''
      \<and> base64url_char n \<noteq> CHR ''/''
      \<and> (if base64_char n = CHR ''+'' then CHR ''-''
          else if base64_char n = CHR ''/'' then CHR ''_'' else base64_char n) = base64url_char n"
  by code_simp

lemma index_url_char: "n < 64 \<Longrightarrow> base64url_index (base64url_char n) = Some n"
  using alphabet_table by simp

lemma url_char_not_eq: "n < 64 \<Longrightarrow> base64url_char n \<noteq> CHR ''=''"
  using alphabet_table by simp

lemma url_char_not_plus: "n < 64 \<Longrightarrow> base64url_char n \<noteq> CHR ''+''"
  using alphabet_table by simp

lemma url_char_not_slash: "n < 64 \<Longrightarrow> base64url_char n \<noteq> CHR ''/''"
  using alphabet_table by simp

lemma url_char_replaced:
  "n < 64 \<Longrightarrow>
   (if base64_char n = CHR ''+'' then CHR ''-''
    else if base64_char n = CHR ''/'' then CHR ''_'' else base64_char n) = base64url_char n"
  using alphabet_table by simp

lemma alphabet_length: "length base64url_alphabet = 64"
  by (simp add: base64url_alphabet_def)

lemma url_char_in_alphabet: "n < 64 \<Longrightarrow> base64url_char n \<in> set base64url_alphabet"
  unfolding base64url_char_def by (rule nth_mem) (simp only: alphabet_length)

lemma replace_sextets:
  "\<forall>x\<in>set xs. x < 64 \<Longrightarrow>
   replace_all CHR ''/'' CHR ''_'' (replace_all CHR ''+'' CHR ''-'' (map base64_char xs))
     = map base64url_char xs"
proof (induction xs)
  case Nil
  then show ?case by (simp add: replace_all_def)
next
  case (Cons x xs)
  then have x: "x < 64" and r: "replace_all CHR ''/'' CHR ''_''
      (replace_all CHR ''+'' CHR ''-'' (map base64_char xs)) = map base64url_char xs"
    by simp_all
  have "(if (if base64_char x = CHR ''+'' then CHR ''-'' else base64_char x) = CHR ''/''
         then CHR ''_'' else (if base64_char x = CHR ''+'' then CHR ''-'' else base64_char x))
        = base64url_char x"
    using url_char_replaced [OF x] by (simp split: if_splits)
  then show ?case
    using r by (simp add: replace_all_def)
qed

lemma padding_eq: "\<forall>c\<in>set (padding bs). c = CHR ''=''"
  by (induction bs rule: padding.induct) simp_all

lemma replace_padding:
  "replace_all CHR ''/'' CHR ''_'' (replace_all CHR ''+'' CHR ''-'' (padding bs)) = padding bs"
  by (induction bs rule: padding.induct) (simp_all add: replace_all_def)

lemma replace_all_append: "replace_all a b (xs @ ys) = replace_all a b xs @ replace_all a b ys"
  by (simp add: replace_all_def)

lemma strip_padding:
  assumes "\<forall>c\<in>set p. c = CHR ''=''" and "\<forall>c\<in>set ys. c \<noteq> CHR ''=''"
  shows "strip_trailing_eq (ys @ p) = ys"
proof -
  have "dropWhile (\<lambda>c. c = CHR ''='') (rev p @ rev ys) = dropWhile (\<lambda>c. c = CHR ''='') (rev ys)"
    using assms(1) by (intro dropWhile_append2) simp
  also have "\<dots> = rev ys"
    using assms(2) by (cases "rev ys") auto
  finally show ?thesis
    by (simp add: strip_trailing_eq_def)
qed

lemma base64url_sextets:
  assumes "\<forall>b\<in>set bs. b < 256"
  shows "strip_trailing_eq
           (replace_all CHR ''/'' CHR ''_'' (replace_all CHR ''+'' CHR ''-'' (toString_base64 bs)))
         = map base64url_char (sextets bs)"
proof -
  have "replace_all CHR ''/'' CHR ''_'' (replace_all CHR ''+'' CHR ''-'' (toString_base64 bs))
          = map base64url_char (sextets bs) @ padding bs"
    using replace_sextets [OF sextets_bound [OF assms]] replace_padding [of bs]
    by (simp only: toString_base64_sextets replace_all_append)
  moreover have "\<forall>c\<in>set (map base64url_char (sextets bs)). c \<noteq> CHR ''=''"
    using sextets_bound [OF assms] by (auto simp: url_char_not_eq)
  ultimately show ?thesis
    by (simp add: strip_padding padding_eq)
qed

lemma length_sextets: "length (sextets bs) mod 4 \<noteq> 1"
  by (induction bs rule: sextets.induct) simp_all

lemma index_sextets:
  "\<forall>x\<in>set xs. x < 64 \<Longrightarrow> map (\<lambda>c. the (base64url_index c)) (map base64url_char xs) = xs"
  by (induction xs) (simp_all add: index_url_char)

lemma strict_decode_sextets:
  assumes "\<forall>b\<in>set bs. b < 256"
  shows "base64url_decode (map base64url_char (sextets bs)) = Some bs"
proof -
  let ?s = "map base64url_char (sextets bs)"
  have s: "\<forall>x\<in>set (sextets bs). x < 64"
    by (rule sextets_bound [OF assms])
  have l: "list_all (\<lambda>c. base64url_index c \<noteq> None) ?s"
    using s by (simp add: list_all_iff index_url_char)
  have m: "length ?s mod 4 \<noteq> 1"
    using length_sextets [of bs] by simp
  have "base64url_decode ?s = Some (decode_sextets (map (\<lambda>c. the (base64url_index c)) ?s))"
    unfolding base64url_decode_def using l m by (simp only: simp_thms if_True)
  then show ?thesis
    by (simp only: index_sextets [OF s] decode_sextets_inverse [OF assms])
qed

lemma Buffer_from_bytes: "\<forall>b\<in>set (Buffer_from bk s). b < 256"
  by (auto simp: Buffer_from_def)

lemma encodedMessage_sextets:
  "encodedMessage bk a = map base64url_char (sextets (Buffer_from bk (rawMessage a)))"
  by (simp add: encodedMessage_def base64url_sextets [OF Buffer_from_bytes])

lemma encodedMessage_decodes:
  "base64url_decode (encodedMessage bk a) = Some (Buffer_from bk (rawMessage a))"
  by (simp only: encodedMessage_sextets strict_decode_sextets [OF Buffer_from_bytes])

lemma encodedMessage_url_safe:
  "set (encodedMessage bk a) \<subseteq> set base64url_alphabet"
  "CHR ''+'' \<notin> set (encodedMessage bk a)" "CHR ''/'' \<notin> set (encodedMessage bk a)"
  "CHR ''='' \<notin> set (encodedMessage bk a)"
proof -
  have s: "\<forall>x\<in>set (sextets (Buffer_from bk (rawMessage a))). x < 64"
    by (rule sextets_bound [OF Buffer_from_bytes])
  show "set (encodedMessage bk a) \<subseteq> set base64url_alphabet"
    using s by (auto simp: encodedMessage_sextets url_char_in_alphabet)
  show "CHR ''+'' \<notin> set (encodedMessage bk a)"
    using s url_char_not_plus by (fastforce simp: encodedMessage_sextets)
  show "CHR ''/'' \<notin> set (encodedMessage bk a)"
    using s url_char_not_slash by (fastforce simp: encodedMessage_sextets)
  show "CHR ''='' \<notin> set (encodedMessage bk a)"
    using s url_char_not_eq by (fastforce simp: encodedMessage_sextets)
qed

lemma sample_text: "buffer_toString sample_backend (Buffer_from sample_backend s) = s"
  by (simp add: sample_engine Buffer_from_def sample_toString_def comp_def)

lemma sendEmail_submits:
  "gmail this = Some g \<Longrightarrow>
   snd (sendEmail bk this (Some a) w) = w @ [MessagesSend (encodedMessage bk a)]"
  by (simp add: sendEmail_def Let_def split: sum.splits)

subsection \<open>Lines of a message\<close>

lemma split_crlf_nonempty: "split_crlf s \<noteq> []"
  by (induction s rule: split_crlf.induct) (auto split: list.splits)

lemma split_crlf_append:
  "split_crlf (x @ CRLF @ rest) = split_crlf x @ split_crlf rest"
proof (induction x rule: split_crlf.induct)
  case 1
  show ?case by (simp add: CRLF_def)
next
  case (2 c)
  show ?case by (simp add: CRLF_def)
next
  case (3 c d cs)
  show ?case
  proof (cases "c = CHR 0x0D \<and> d = CHR 0x0A")
    case True
    then show ?thesis using 3 by auto
  next
    case False
    obtain l ls where s: "split_crlf (d # cs) = l # ls"
      using split_crlf_nonempty [of "d # cs"] by (cases "split_crlf (d # cs)") auto
    have "split_crlf ((d # cs) @ CRLF @ rest) = (l # ls) @ split_crlf rest"
      using 3 False s by auto
    then show ?thesis
      using False s by auto
  qed
qed

lemma split_crlf_join_Cons:
  "split_crlf (join CRLF (x # xs)) = concat (map split_crlf (x # xs))"
  by (induction xs arbitrary: x) (simp_all add: split_crlf_append)

lemma split_crlf_join:
  "xs \<noteq> [] \<Longrightarrow> split_crlf (join CRLF xs) = concat (map split_crlf xs)"
  by (cases xs) (simp_all only: split_crlf_join_Cons simp_thms)

lemma split_crlf_single: "\<not> has_crlf x \<Longrightarrow> split_crlf x = [x]"
  by (induction x rule: has_crlf.induct) auto

lemma join_split_crlf: "join CRLF (split_crlf s) = s"
proof (induction s rule: split_crlf.induct)
  case 1
  show ?case by simp
next
  case (2 c)
  show ?case by simp
next
  case (3 c d cs)
  show ?case
  proof (cases "c = CHR 0x0D \<and> d = CHR 0x0A")
    case True
    obtain l ls where s: "split_crlf cs = l # ls"
      using split_crlf_nonempty [of cs] by (cases "split_crlf cs") auto
    show ?thesis
      using True 3 s by (auto simp: CRLF_def)
  next
    case False
    obtain l ls where s: "split_crlf (d # cs) = l # ls"
      using split_crlf_nonempty [of "d # cs"] by (cases "split_crlf (d # cs)") auto
    show ?thesis
      using False 3 s by (cases ls) auto
  qed
qed

lemma has_crlf_Cons: "c \<noteq> CHR 0x0D \<Longrightarrow> has_crlf (c # s) = has_crlf s"
  by (cases s) simp_all

lemma no_crlf_To: "has_crlf (''To: '' @ s) = has_crlf s"
  by (simp add: has_crlf_Cons)

lemma no_crlf_Cc: "has_crlf (''Cc: '' @ s) = has_crlf s"
  by (simp add: has_crlf_Cons)

lemma no_crlf_Bcc: "has_crlf (''Bcc: '' @ s) = has_crlf s"
  by (simp add: has_crlf_Cons)

lemma no_crlf_Subject: "has_crlf (''Subject: '' @ s) = has_crlf s"
  by (simp add: has_crlf_Cons)

lemma no_crlf_content_type: "\<not> has_crlf (content_type_line html)"
  by (simp add: content_type_line_def)

lemma truthy_optional: "truthy (str_or_undefined x) = has_text x"
  by (simp add: str_or_undefined_def has_text_def split: option.splits)

lemma optional_text: "has_text x \<Longrightarrow> str_or_undefined x = JStr (the x)"
  by (cases x) (simp_all add: str_or_undefined_def has_text_def)

lemma emailBody_chosen:
  "(if has_text html then str_or_undefined html else JStr plain) = JStr (chosen_body plain html)"
  by (simp add: chosen_body_def optional_text)

lemma message_lines_valid:
  assumes "send_args a to subject plain html cc bcc"
  shows "message_lines a =
     [JStr (''To: '' @ to),
      JStr (if has_text cc then ''Cc: '' @ the cc else []),
      JStr (if has_text bcc then ''Bcc: '' @ the bcc else []),
      JStr (''Subject: '' @ subject),
      JStr (content_type_line html), JStr [], JStr (chosen_body plain html)]"
  using assms emailBody_chosen [of html plain]
  by (simp add: send_args_def message_lines_def Let_def truthy_optional optional_text
      content_type_line_def)

lemma array_join_strings: "array_join sep (map JStr xs) = join sep xs"
  by (simp add: array_join_def comp_def)

lemma rawMessage_valid:
  assumes "send_args a to subject plain html cc bcc"
  shows "rawMessage a = join CRLF (kept_lines to subject plain html cc bcc)"
proof -
  have "filter (\<lambda>line. line \<noteq> JStr []) (message_lines a)
          = map JStr (kept_lines to subject plain html cc bcc)"
    by (simp add: message_lines_valid [OF assms] kept_lines_def header_lines_def
        content_type_line_def)
  then show ?thesis
    by (simp add: rawMessage_def array_join_strings)
qed

lemma kept_lines_nonempty: "[] \<notin> set (kept_lines to subject plain html cc bcc)"
  by (simp add: kept_lines_def header_lines_def content_type_line_def)

lemma header_lines_nonempty: "header_lines to subject html cc bcc \<noteq> []"
  by (simp add: header_lines_def)

lemma join_snoc: "xs \<noteq> [] \<Longrightarrow> join sep (xs @ [x]) = join sep xs @ sep @ x"
  by (induction sep xs rule: join.induct) simp_all

lemma header_lines_last:
  "\<exists>pre. join CRLF (header_lines to subject html cc bcc) = pre @ CRLF @ content_type_line html"
proof -
  define ys where "ys = [''To: '' @ to] @ (if has_text cc then [''Cc: '' @ the cc] else [])
             @ (if has_text bcc then [''Bcc: '' @ the bcc] else []) @ [''Subject: '' @ subject]"
  have n: "ys \<noteq> []"
    by (simp add: ys_def)
  have "header_lines to subject html cc bcc = ys @ [content_type_line html]"
    by (simp add: header_lines_def ys_def)
  then have "join CRLF (header_lines to subject html cc bcc)
          = join CRLF ys @ CRLF @ content_type_line html"
    using join_snoc [OF n] by simp
  then show ?thesis by blast
qed

lemma split_header_lines:
  assumes "\<not> has_crlf to" and "\<not> has_crlf subject"
    and "has_text cc \<longrightarrow> \<not> has_crlf (the cc)" and "has_text bcc \<longrightarrow> \<not> has_crlf (the bcc)"
  shows "concat (map split_crlf (header_lines to subject html cc bcc))
           = header_lines to subject html cc bcc"
proof -
  have t: "split_crlf (''To: '' @ to) = [''To: '' @ to]"
    using assms(1) split_crlf_single [of "''To: '' @ to"] no_crlf_To [of to] by blast
  have s: "split_crlf (''Subject: '' @ subject) = [''Subject: '' @ subject]"
    using assms(2) split_crlf_single [of "''Subject: '' @ subject"] no_crlf_Subject [of subject] by blast
  have c: "has_text cc \<Longrightarrow> split_crlf (''Cc: '' @ the cc) = [''Cc: '' @ the cc]"
    using assms(3) split_crlf_single [of "''Cc: '' @ the cc"] no_crlf_Cc [of "the cc"] by blast
  have b: "has_text bcc \<Longrightarrow> split_crlf (''Bcc: '' @ the bcc) = [''Bcc: '' @ the bcc]"
    using assms(4) split_crlf_single [of "''Bcc: '' @ the bcc"] no_crlf_Bcc [of "the bcc"] by blast
  have ct: "split_crlf (content_type_line html) = [content_type_line html]"
    by (intro split_crlf_single) (rule no_crlf_content_type)
  show ?thesis
    unfolding header_lines_def
    by (cases "has_text cc"; cases "has_text bcc") (simp_all add: t s c b ct del: append.simps)
qed

lemma split_decoded:
  assumes "send_args a to subject plain html cc bcc"
  shows "split_crlf (rawMessage a) = concat (map split_crlf (kept_lines to subject plain html cc bcc))"
proof -
  have "kept_lines to subject plain html cc bcc \<noteq> []"
    by (simp add: kept_lines_def header_lines_nonempty)
  then show ?thesis
    using split_crlf_join [of "kept_lines to subject plain html cc bcc"]
    by (simp add: rawMessage_valid [OF assms])
qed

lemma concat_kept_lines:
  "concat (map split_crlf (kept_lines to subject plain html cc bcc))
     = concat (map split_crlf (header_lines to subject html cc bcc))
       @ (if chosen_body plain html = [] then [] else split_crlf (chosen_body plain html))"
  by (simp add: kept_lines_def)

lemma join_body_lines:
  "join CRLF (if b = [] then [] else split_crlf b) = b"
  by (simp add: join_split_crlf)

lemma example_html_empty:
  "send_args [(''to'', JStr ''a@b.c''), (''subject'', JStr ''s''), (''body'', JStr ''plain''),
              (''htmlBody'', JStr [])] ''a@b.c'' ''s'' ''plain'' (Some []) None None"
  by (simp add: send_args_def get_prop_def str_or_undefined_def)

lemma example_header_crlf:
  "send_args [(''to'', JStr (''a'' @ CRLF @ ''Bcc: x'')), (''subject'', JStr ''s''), (''body'', JStr ''y'')]
     (''a'' @ CRLF @ ''Bcc: x'') ''s'' ''y'' None None None"
  by (simp add: send_args_def get_prop_def str_or_undefined_def)

lemma example_paragraphs:
  "send_args [(''to'', JStr ''a@b.c''), (''subject'', JStr ''s''),
              (''body'', JStr (''p1'' @ CRLF @ CRLF @ ''p2''))]
     ''a@b.c'' ''s'' (''p1'' @ CRLF @ CRLF @ ''p2'') None None None"
  by (simp add: send_args_def get_prop_def str_or_undefined_def)

lemma example_full:
  "send_args [(''to'', JStr ''a@b.c''), (''subject'', JStr ''Hi''), (''body'', JStr ''plain''),
              (''htmlBody'', JStr ''<p>x</p>''), (''cc'', JStr ''c@d.e'')]
     ''a@b.c'' ''Hi'' ''plain'' (Some ''<p>x</p>'') (Some ''c@d.e'') None"
  by (simp add: send_args_def get_prop_def str_or_undefined_def)

section \<open>The claims\<close>

subsection \<open>Statement kinds\<close>

text \<open>
  C1. The two statement tools split the query strings between them by one test, made on
  the text that the engine's \<^verbatim>\<open>trim\<close> followed by its \<^verbatim>\<open>toUpperCase\<close> gives, whatever these
  do to the query (on an ASCII query, an engine that is faithful on ASCII gives the query
  without its leading and trailing ASCII white space, with the letters a to z in upper
  case). When that text does not start with SELECT,
  \<open>postgres_execute\<close> submits the statement to the pool and \<open>postgres_query\<close> rejects it
  with its wrong-operation-kind error (\<open>query_rejected\<close>) without submitting anything;
  when it does, \<open>postgres_query\<close> submits it and \<open>postgres_execute\<close> rejects it with
  \<open>execute_rejected\<close>. The same holds through \<open>handleTool\<close>, which adds the adapter's prefix
  to the message of any error.
\<close>

theorem statement_kind_separation:
  assumes "pool this = Some p" and "get_prop a ''query'' = JStr q"
    and "ps = default_to (JArr []) (get_prop a ''params'')"
  shows
    "(\<not> startsWith (string_toUpperCase bk (string_trim bk q)) ''SELECT'' \<longrightarrow>
        execute bk this (Some a) w = runs_statement bk q ps w unwrapped ExecuteResponse
      \<and> query bk this (Some a) w = (Inl query_rejected, w)
      \<and> PostgresService_handleTool bk this ''postgres_execute'' (Some a) w
          = runs_statement bk q ps w postgres_failed ExecuteResponse
      \<and> PostgresService_handleTool bk this ''postgres_query'' (Some a) w
          = (Inl (postgres_failed query_rejected), w))
   \<and> (startsWith (string_toUpperCase bk (string_trim bk q)) ''SELECT'' \<longrightarrow>
        query bk this (Some a) w = runs_statement bk q ps w unwrapped QueryResponse
      \<and> execute bk this (Some a) w = (Inl execute_rejected, w)
      \<and> PostgresService_handleTool bk this ''postgres_query'' (Some a) w
          = runs_statement bk q ps w postgres_failed QueryResponse
      \<and> PostgresService_handleTool bk this ''postgres_execute'' (Some a) w
          = (Inl (postgres_failed execute_rejected), w))
   \<and> (ascii_faithful bk \<and> is_ascii q \<longrightarrow>
        string_toUpperCase bk (string_trim bk q) = ascii_upper (ascii_trim q))"
  using assms
  by (simp add: query_string execute_string handleTool_query handleTool_execute
      pool_run_Some wrap_runs_statement faithful_test)

theorem statement_kind_separation_witness:
  "execute sample_backend sample_postgres (Some [(''query'', JStr ''DELETE FROM x'')]) []
     = runs_statement sample_backend ''DELETE FROM x'' (JArr []) [] unwrapped ExecuteResponse
   \<and> query sample_backend sample_postgres (Some [(''query'', JStr ''DELETE FROM x'')]) []
     = (Inl query_rejected, [])
   \<and> query sample_backend sample_postgres (Some [(''query'', JStr ''  select 1'')]) []
     = runs_statement sample_backend ''  select 1'' (JArr []) [] unwrapped QueryResponse
   \<and> execute sample_backend sample_postgres (Some [(''query'', JStr ''  select 1'')]) []
     = (Inl execute_rejected, [])"
proof -
  obtain p where p: "pool sample_postgres = Some p"
    using sample_pool by auto
  have d: "get_prop [(''query'', JStr ''DELETE FROM x'')] ''query'' = JStr ''DELETE FROM x''"
    and s: "get_prop [(''query'', JStr ''  select 1'')] ''query'' = JStr ''  select 1''"
    by (simp_all add: get_prop_def)
  have pd: "JArr [] = default_to (JArr []) (get_prop [(''query'', JStr ''DELETE FROM x'')] ''params'')"
    and psel: "JArr [] = default_to (JArr []) (get_prop [(''query'', JStr ''  select 1'')] ''params'')"
    by (simp_all add: get_prop_def default_to_def)
  show ?thesis
    using statement_kind_separation [OF p d pd, of sample_backend "[]"]
      statement_kind_separation [OF p s psel, of sample_backend "[]"]
      delete_is_no_select select_is_select
    by simp
qed

subsection \<open>The sent message read back\<close>

text \<open>
  C2. For a well-typed send request, the payload that \<open>gmail_send_email\<close> submits is the
  unpadded base64url encoding of the bytes of the raw message: it is made of characters of
  the URL-safe alphabet only (no \<open>+\<close>, \<open>/\<close> or \<open>=\<close>), and the strict base64url decoder
  gives these bytes back. The raw message is the CR LF join of the To line, the Cc and the
  Bcc line for a \<open>cc\<close> and a \<open>bcc\<close> that are given and not empty, the Subject line, the
  Content-Type line (\<open>text/html\<close> for an \<open>htmlBody\<close> that is given and not empty,
  \<open>text/plain\<close> otherwise) and the chosen body when it is not empty (\<open>htmlBody\<close> if given
  and not empty, else \<open>body\<close>). When the raw message is text that survives the engine's
  UTF-8 encoding (well-formed Unicode does), reading the decoded bytes as text gives the
  raw message back, and splitting it at CR LF gives the lines of these texts in this
  order; when moreover \<open>to\<close>, \<open>subject\<close>, \<open>cc\<close> and \<open>bcc\<close> contain no CR LF, these are
  exactly the header lines followed by the lines of the body, and joining what follows the
  header lines gives the chosen body back.
\<close>

theorem send_email_round_trip:
  assumes "send_args a to subject plain html cc bcc"
  shows
    "rawMessage a = join CRLF (kept_lines to subject plain html cc bcc)
   \<and> encodedMessage bk a = map base64url_char (sextets (Buffer_from bk (rawMessage a)))
   \<and> set (encodedMessage bk a) \<subseteq> set base64url_alphabet
   \<and> CHR ''+'' \<notin> set (encodedMessage bk a) \<and> CHR ''/'' \<notin> set (encodedMessage bk a)
   \<and> CHR ''='' \<notin> set (encodedMessage bk a)
   \<and> base64url_decode (encodedMessage bk a) = Some (Buffer_from bk (rawMessage a))
   \<and> (gmail this = Some g \<longrightarrow>
        snd (sendEmail bk this (Some a) w) = w @ [MessagesSend (encodedMessage bk a)])
   \<and> (buffer_toString bk (Buffer_from bk (rawMessage a)) = rawMessage a \<longrightarrow>
        decoded_text bk (encodedMessage bk a)
          = Some (join CRLF (kept_lines to subject plain html cc bcc))
      \<and> decoded_lines bk (encodedMessage bk a)
          = Some (concat (map split_crlf (kept_lines to subject plain html cc bcc)))
      \<and> (\<not> has_crlf to \<and> \<not> has_crlf subject \<and> (has_text cc \<longrightarrow> \<not> has_crlf (the cc))
           \<and> (has_text bcc \<longrightarrow> \<not> has_crlf (the bcc)) \<longrightarrow>
            decoded_lines bk (encodedMessage bk a)
              = Some (header_lines to subject html cc bcc
                      @ (if chosen_body plain html = [] then []
                         else split_crlf (chosen_body plain html)))
          \<and> map_option (take (length (header_lines to subject html cc bcc)))
                (decoded_lines bk (encodedMessage bk a))
              = Some (header_lines to subject html cc bcc)
          \<and> map_option (\<lambda>ls. join CRLF (drop (length (header_lines to subject html cc bcc)) ls))
                (decoded_lines bk (encodedMessage bk a))
              = Some (chosen_body plain html)))"
proof -
  let ?hs = "header_lines to subject html cc bcc"
  let ?rest = "if chosen_body plain html = [] then [] else split_crlf (chosen_body plain html)"
  let ?kept = "kept_lines to subject plain html cc bcc"
  have r: "rawMessage a = join CRLF ?kept"
    by (rule rawMessage_valid [OF assms])
  have e: "encodedMessage bk a = map base64url_char (sextets (Buffer_from bk (rawMessage a)))"
    by (rule encodedMessage_sextets)
  have u: "set (encodedMessage bk a) \<subseteq> set base64url_alphabet"
    "CHR ''+'' \<notin> set (encodedMessage bk a)" "CHR ''/'' \<notin> set (encodedMessage bk a)"
    "CHR ''='' \<notin> set (encodedMessage bk a)"
    by (rule encodedMessage_url_safe)+
  have d: "base64url_decode (encodedMessage bk a) = Some (Buffer_from bk (rawMessage a))"
    by (rule encodedMessage_decodes)
  have s: "gmail this = Some g \<longrightarrow>
      snd (sendEmail bk this (Some a) w) = w @ [MessagesSend (encodedMessage bk a)]"
    by (simp add: sendEmail_submits)
  have t: "decoded_text bk (encodedMessage bk a) = Some (join CRLF ?kept)
      \<and> decoded_lines bk (encodedMessage bk a) = Some (concat (map split_crlf ?kept))
      \<and> (\<not> has_crlf to \<and> \<not> has_crlf subject \<and> (has_text cc \<longrightarrow> \<not> has_crlf (the cc))
           \<and> (has_text bcc \<longrightarrow> \<not> has_crlf (the bcc)) \<longrightarrow>
            decoded_lines bk (encodedMessage bk a) = Some (?hs @ ?rest)
          \<and> map_option (take (length ?hs)) (decoded_lines bk (encodedMessage bk a)) = Some ?hs
          \<and> map_option (\<lambda>ls. join CRLF (drop (length ?hs) ls))
                (decoded_lines bk (encodedMessage bk a))
              = Some (chosen_body plain html))"
    if w: "buffer_toString bk (Buffer_from bk (rawMessage a)) = rawMessage a"
  proof -
    have c1: "decoded_text bk (encodedMessage bk a) = Some (rawMessage a)"
      by (simp add: decoded_text_def d w)
    have c2: "decoded_lines bk (encodedMessage bk a) = Some (concat (map split_crlf ?kept))"
      by (simp only: decoded_lines_def c1 option.map split_decoded [OF assms])
    have c3: "decoded_lines bk (encodedMessage bk a) = Some (?hs @ ?rest)
        \<and> map_option (take (length ?hs)) (decoded_lines bk (encodedMessage bk a)) = Some ?hs
        \<and> map_option (\<lambda>ls. join CRLF (drop (length ?hs) ls))
              (decoded_lines bk (encodedMessage bk a))
            = Some (chosen_body plain html)"
      if "\<not> has_crlf to \<and> \<not> has_crlf subject \<and> (has_text cc \<longrightarrow> \<not> has_crlf (the cc))
          \<and> (has_text bcc \<longrightarrow> \<not> has_crlf (the bcc))"
    proof -
      have "concat (map split_crlf ?hs) = ?hs"
        using that by (intro split_header_lines) simp_all
      then have l: "decoded_lines bk (encodedMessage bk a) = Some (?hs @ ?rest)"
        by (simp only: c2 concat_kept_lines)
      have "join CRLF (drop (length ?hs) (?hs @ ?rest)) = chosen_body plain html"
        using join_body_lines [of "chosen_body plain html"] by simp
      then show ?thesis
        by (simp add: l)
    qed
    from c1 c2 c3 show ?thesis
      by (simp only: r) blast
  qed
  from r e u d s t show ?thesis by blast
qed

theorem send_email_round_trip_witness:
  "encodedMessage sample_backend
      [(''to'', JStr ''a@b.c''), (''subject'', JStr ''Hi''), (''body'', JStr ''plain''),
       (''htmlBody'', JStr ''<p>x</p>''), (''cc'', JStr ''c@d.e'')]
   = map base64url_char (sextets (Buffer_from sample_backend
       (join CRLF [''To: a@b.c'', ''Cc: c@d.e'', ''Subject: Hi'',
          ''Content-Type: text/html; charset=utf-8'', ''<p>x</p>''])))
   \<and> decoded_lines sample_backend (encodedMessage sample_backend
      [(''to'', JStr ''a@b.c''), (''subject'', JStr ''Hi''), (''body'', JStr ''plain''),
       (''htmlBody'', JStr ''<p>x</p>''), (''cc'', JStr ''c@d.e'')])
   = Some [''To: a@b.c'', ''Cc: c@d.e'', ''Subject: Hi'', ''Content-Type: text/html; charset=utf-8'',
      ''<p>x</p>'']"
proof -
  let ?a = "[(''to'', JStr ''a@b.c''), (''subject'', JStr ''Hi''), (''body'', JStr ''plain''),
       (''htmlBody'', JStr ''<p>x</p>''), (''cc'', JStr ''c@d.e'')]"
  have n: "\<not> has_crlf ''a@b.c'' \<and> \<not> has_crlf ''Hi''
      \<and> (has_text (Some ''c@d.e'') \<longrightarrow> \<not> has_crlf (the (Some ''c@d.e'')))
      \<and> (has_text None \<longrightarrow> \<not> has_crlf (the None))"
    by (simp add: has_text_def)
  have w: "buffer_toString sample_backend (Buffer_from sample_backend (rawMessage ?a)) = rawMessage ?a"
    by (rule sample_text)
  have k: "kept_lines ''a@b.c'' ''Hi'' ''plain'' (Some ''<p>x</p>'') (Some ''c@d.e'') None
      = [''To: a@b.c'', ''Cc: c@d.e'', ''Subject: Hi'',
         ''Content-Type: text/html; charset=utf-8'', ''<p>x</p>'']"
    by (simp add: kept_lines_def header_lines_def chosen_body_def content_type_line_def has_text_def)
  have h: "header_lines ''a@b.c'' ''Hi'' (Some ''<p>x</p>'') (Some ''c@d.e'') None
      @ (if chosen_body ''plain'' (Some ''<p>x</p>'') = [] then []
         else split_crlf (chosen_body ''plain'' (Some ''<p>x</p>'')))
      = [''To: a@b.c'', ''Cc: c@d.e'', ''Subject: Hi'',
         ''Content-Type: text/html; charset=utf-8'', ''<p>x</p>'']"
    by (simp add: header_lines_def chosen_body_def content_type_line_def has_text_def)
  have "encodedMessage sample_backend ?a
      = map base64url_char (sextets (Buffer_from sample_backend
          (join CRLF (kept_lines ''a@b.c'' ''Hi'' ''plain'' (Some ''<p>x</p>'') (Some ''c@d.e'') None))))"
    using send_email_round_trip [OF example_full, of sample_backend] by metis
  moreover have "decoded_lines sample_backend (encodedMessage sample_backend ?a)
      = Some (header_lines ''a@b.c'' ''Hi'' (Some ''<p>x</p>'') (Some ''c@d.e'') None
      @ (if chosen_body ''plain'' (Some ''<p>x</p>'') = [] then []
         else split_crlf (chosen_body ''plain'' (Some ''<p>x</p>''))))"
    using send_email_round_trip [OF example_full, of sample_backend] n w by blast
  ultimately show ?thesis
    by (simp only: k h)
qed

text \<open>
  The claim as the specification words it fails in two ways. An \<open>htmlBody\<close> given as
  the empty string does not take precedence: the message is \<open>text/plain\<close> and carries
  \<open>body\<close>. A \<open>to\<close> that contains CR LF does not come back as one To line.
\<close>

theorem send_email_round_trip_counterexample:
  "decoded_lines sample_backend (encodedMessage sample_backend
      [(''to'', JStr ''a@b.c''), (''subject'', JStr ''s''), (''body'', JStr ''plain''),
       (''htmlBody'', JStr [])])
     = Some [''To: a@b.c'', ''Subject: s'', ''Content-Type: text/plain; charset=utf-8'', ''plain'']
   \<and> spec_parsed_message ''a@b.c'' ''s'' ''plain'' (Some []) None None
     = [''To: a@b.c'', ''Subject: s'', ''Content-Type: text/html; charset=utf-8'']
   \<and> decoded_lines sample_backend (encodedMessage sample_backend
      [(''to'', JStr (''a'' @ CRLF @ ''Bcc: x'')), (''subject'', JStr ''s''), (''body'', JStr ''y'')])
     = Some [''To: a'', ''Bcc: x'', ''Subject: s'', ''Content-Type: text/plain; charset=utf-8'', ''y'']
   \<and> spec_parsed_message (''a'' @ CRLF @ ''Bcc: x'') ''s'' ''y'' None None None
     = [''To: a'' @ CRLF @ ''Bcc: x'', ''Subject: s'', ''Content-Type: text/plain; charset=utf-8'', ''y'']"
proof -
  have l: "decoded_lines sample_backend (encodedMessage sample_backend x)
      = Some (split_crlf (rawMessage x))" for x
    by (simp add: decoded_lines_def decoded_text_def encodedMessage_decodes sample_text)
  have a: "decoded_lines sample_backend (encodedMessage sample_backend
      [(''to'', JStr ''a@b.c''), (''subject'', JStr ''s''), (''body'', JStr ''plain''),
       (''htmlBody'', JStr [])])
     = Some [''To: a@b.c'', ''Subject: s'', ''Content-Type: text/plain; charset=utf-8'', ''plain'']"
    by (simp only: l split_decoded [OF example_html_empty])
       (simp add: kept_lines_def header_lines_def chosen_body_def content_type_line_def
         has_text_def)
  have b: "decoded_lines sample_backend (encodedMessage sample_backend
      [(''to'', JStr (''a'' @ CRLF @ ''Bcc: x'')), (''subject'', JStr ''s''), (''body'', JStr ''y'')])
     = Some [''To: a'', ''Bcc: x'', ''Subject: s'', ''Content-Type: text/plain; charset=utf-8'', ''y'']"
    by (simp only: l split_decoded [OF example_header_crlf])
       (simp add: kept_lines_def header_lines_def chosen_body_def content_type_line_def
         has_text_def CRLF_def)
  show ?thesis
    using a b
    by (simp add: spec_parsed_message_def spec_header_lines_def spec_body_def CRLF_def)
qed

subsection \<open>The body of a read email\<close>

text \<open>
  C3. The body of the email data that \<open>gmail_read_email\<close> returns. A data string counts
  as body data when it is present and not empty, and is decoded by the engine
  (\<^verbatim>\<open>Buffer.from(data, "base64").toString("utf-8")\<close>, which reads base64url). When the
  payload has no top-level body data but has parts, the body is the decoded texts of the
  parts that carry data, in the parts' order, joined by the separator line; when the
  payload has top-level body data, the body is that data decoded, whatever the parts are.
  The tool's one content item is the JSON text of that email data.
\<close>

theorem read_email_body:
  "(\<not> has_text (payload_body_data (payload m)) \<and> payload_parts (payload m) = Some ps \<longrightarrow>
       json_field (emailData bk m) ''body'' = JStr (join body_separator (carried_texts bk ps)))
   \<and> (has_text (payload_body_data (payload m)) \<longrightarrow>
       json_field (emailData bk m) ''body''
         = JStr (base64_decode_text bk (the (payload_body_data (payload m)))))
   \<and> (gmail this = Some g \<and> messages_get bk w (get_prop a ''messageId'')
          (default_to (JStr ''full'') (get_prop a ''format'')) = Inr m \<longrightarrow>
       fst (readEmail bk this (Some a) w) = Inr (text_result (emailData bk m)))
   \<and> carried_texts bk ps
       = map (\<lambda>part. buffer_toString bk (buffer_base64 bk (the (body_data (part_body part)))))
           (filter (\<lambda>part. has_text (body_data (part_body part))) ps)
   \<and> body_separator = [CHR 0x0A, CHR ''-'', CHR ''-'', CHR ''-'', CHR 0x0A]"
  by (simp add: emailData_body extract_body_parts extract_body_top readEmail_def Let_def
      body_separator_def carried_texts_filter base64_decode_text_def)

theorem read_email_body_witness:
  "json_field (emailData sample_backend sample_message) ''body'' = JStr ''hi''
   \<and> json_field
       (emailData sample_backend \<lparr>id' = None, threadId = None, labelIds = None, snippet = None,
          payload = Some \<lparr>headers = None, body = Some \<lparr>data = None\<rparr>,
            parts = Some [\<lparr>part_body = Some \<lparr>data = Some ''aGk''\<rparr>\<rparr>,
                          \<lparr>part_body = None\<rparr>,
                          \<lparr>part_body = Some \<lparr>data = Some ''eW8''\<rparr>\<rparr>]\<rparr>\<rparr>) ''body''
     = JStr (''hi'' @ body_separator @ ''yo'')"
proof -
  let ?ps = "[\<lparr>part_body = Some \<lparr>data = Some ''aGk''\<rparr>\<rparr>,
          \<lparr>part_body = None\<rparr>,
          \<lparr>part_body = Some \<lparr>data = Some ''eW8''\<rparr>\<rparr>]"
  let ?m = "\<lparr>id' = None, threadId = None, labelIds = None, snippet = None,
          payload = Some \<lparr>headers = None, body = Some \<lparr>data = None\<rparr>, parts = Some ?ps\<rparr>\<rparr>"
  have top: "has_text (payload_body_data (payload sample_message))"
    by (simp add: sample_message_def payload_body_data_def body_data_def has_text_def)
  have d: "the (payload_body_data (payload sample_message)) = ''aGk''"
    by (simp add: sample_message_def payload_body_data_def body_data_def)
  have "json_field (emailData sample_backend sample_message) ''body''
      = JStr (base64_decode_text sample_backend (the (payload_body_data (payload sample_message))))"
    using read_email_body [of sample_message "[]" sample_backend] top by blast
  then have one: "json_field (emailData sample_backend sample_message) ''body'' = JStr ''hi''"
    by (simp only: d decode_hi)
  have np: "\<not> has_text (payload_body_data (payload ?m)) \<and> payload_parts (payload ?m) = Some ?ps"
    by (simp add: payload_body_data_def payload_parts_def body_data_def has_text_def)
  have "json_field (emailData sample_backend ?m) ''body''
      = JStr (join body_separator (carried_texts sample_backend ?ps))"
    using read_email_body [of ?m ?ps sample_backend] np by blast
  moreover have "carried_texts sample_backend ?ps = [''hi'', ''yo'']"
    by (simp add: carried_texts_def decode_hi decode_yo)
  ultimately have two: "json_field (emailData sample_backend ?m) ''body''
      = JStr (''hi'' @ body_separator @ ''yo'')"
    by simp
  from one two show ?thesis by simp
qed

subsection \<open>Unconfigured adapters\<close>

text \<open>
  C4. An adapter built without its credentials stays unconfigured: the database adapter
  when the password is missing or empty, the email adapter when the client id, the client
  secret or the refresh token is. Its \<open>getTools\<close> is then empty, so \<open>list_tools\<close> holds
  the other adapter's tools only, and every tool call routed to it fails with the
  not-configured error and leaves the world untouched, whatever the arguments. A
  configured adapter contributes a non-empty list.
\<close>

theorem unconfigured_adapter_contract:
  "(\<not> env_set e ''POSTGRES_PASSWORD'' \<longrightarrow>
       pool (fst (initializePostgres bk e w0)) = None \<and> snd (initializePostgres bk e w0) = w0)
   \<and> (env_set e ''POSTGRES_PASSWORD'' \<longrightarrow>
       PostgresService_getTools (fst (initializePostgres bk e w0)) \<noteq> [])
   \<and> (\<not> (env_set e ''GMAIL_CLIENT_ID'' \<and> env_set e ''GMAIL_CLIENT_SECRET''
          \<and> env_set e ''GMAIL_REFRESH_TOKEN'') \<longrightarrow> gmail (initializeGmail e) = None)
   \<and> (env_set e ''GMAIL_CLIENT_ID'' \<and> env_set e ''GMAIL_CLIENT_SECRET''
        \<and> env_set e ''GMAIL_REFRESH_TOKEN'' \<longrightarrow> GmailService_getTools (initializeGmail e) \<noteq> [])
   \<and> (pool (postgresService srv) = None \<longrightarrow>
         PostgresService_getTools (postgresService srv) = []
       \<and> list_tools srv = GmailService_getTools (gmailService srv)
       \<and> PostgresService_handleTool bk (postgresService srv) nm args w = (Inl postgres_not_initialized, w)
       \<and> (startsWith nm ''postgres_'' \<longrightarrow>
            call_tool bk srv nm args w = (Inl postgres_not_initialized, w)
          \<and> http_call_tool bk srv nm args w = (Inl postgres_not_initialized, w)))
   \<and> (gmail (gmailService srv) = None \<longrightarrow>
         GmailService_getTools (gmailService srv) = []
       \<and> list_tools srv = PostgresService_getTools (postgresService srv)
       \<and> GmailService_handleTool bk (gmailService srv) nm args w = (Inl gmail_not_initialized, w)
       \<and> (startsWith nm ''gmail_'' \<longrightarrow>
            call_tool bk srv nm args w = (Inl gmail_not_initialized, w)
          \<and> http_call_tool bk srv nm args w = (Inl gmail_not_initialized, w)))
   \<and> (pool (postgresService srv) \<noteq> None \<longrightarrow> PostgresService_getTools (postgresService srv) \<noteq> [])
   \<and> (gmail (gmailService srv) \<noteq> None \<longrightarrow> GmailService_getTools (gmailService srv) \<noteq> [])"
proof -
  have a: "\<not> env_set e ''POSTGRES_PASSWORD'' \<longrightarrow>
       pool (fst (initializePostgres bk e w0)) = None \<and> snd (initializePostgres bk e w0) = w0"
    by (simp add: initializePostgres_unset)
  have b: "env_set e ''POSTGRES_PASSWORD'' \<longrightarrow>
       PostgresService_getTools (fst (initializePostgres bk e w0)) \<noteq> []"
    using initializePostgres_set [of e bk w0]
    by (auto simp: PostgresService_getTools_def postgres_tools_nonempty)
  have c: "\<not> (env_set e ''GMAIL_CLIENT_ID'' \<and> env_set e ''GMAIL_CLIENT_SECRET''
          \<and> env_set e ''GMAIL_REFRESH_TOKEN'') \<longrightarrow> gmail (initializeGmail e) = None"
    using initializeGmail_client [of e] by blast
  have d: "env_set e ''GMAIL_CLIENT_ID'' \<and> env_set e ''GMAIL_CLIENT_SECRET''
        \<and> env_set e ''GMAIL_REFRESH_TOKEN'' \<longrightarrow> GmailService_getTools (initializeGmail e) \<noteq> []"
    using initializeGmail_client [of e]
    by (auto simp: GmailService_getTools_def gmail_tools_nonempty)
  have f: "pool (postgresService srv) = None \<longrightarrow>
         PostgresService_getTools (postgresService srv) = []
       \<and> list_tools srv = GmailService_getTools (gmailService srv)
       \<and> PostgresService_handleTool bk (postgresService srv) nm args w = (Inl postgres_not_initialized, w)
       \<and> (startsWith nm ''postgres_'' \<longrightarrow>
            call_tool bk srv nm args w = (Inl postgres_not_initialized, w)
          \<and> http_call_tool bk srv nm args w = (Inl postgres_not_initialized, w))"
    by (simp add: PostgresService_getTools_def list_tools_def handleTool_unconfigured
        call_tool_postgres http_call_tool_postgres)
  have g: "gmail (gmailService srv) = None \<longrightarrow>
         GmailService_getTools (gmailService srv) = []
       \<and> list_tools srv = PostgresService_getTools (postgresService srv)
       \<and> GmailService_handleTool bk (gmailService srv) nm args w = (Inl gmail_not_initialized, w)
       \<and> (startsWith nm ''gmail_'' \<longrightarrow>
            call_tool bk srv nm args w = (Inl gmail_not_initialized, w)
          \<and> http_call_tool bk srv nm args w = (Inl gmail_not_initialized, w))"
    by (simp add: GmailService_getTools_def list_tools_def gmail_handleTool_unconfigured
        call_tool_def http_call_tool_def)
  have h: "pool (postgresService srv) \<noteq> None \<longrightarrow> PostgresService_getTools (postgresService srv) \<noteq> []"
    by (auto simp: PostgresService_getTools_def postgres_tools_nonempty)
  have i: "gmail (gmailService srv) \<noteq> None \<longrightarrow> GmailService_getTools (gmailService srv) \<noteq> []"
    by (auto simp: GmailService_getTools_def gmail_tools_nonempty)
  from a b c d f g h i show ?thesis by blast
qed

theorem unconfigured_adapter_contract_witness:
  "pool (fst (initializePostgres sample_backend Map.empty [])) = None
   \<and> snd (initializePostgres sample_backend Map.empty []) = []
   \<and> gmail (initializeGmail Map.empty) = None
   \<and> PostgresService_getTools sample_postgres \<noteq> []
   \<and> GmailService_getTools sample_gmail \<noteq> []
   \<and> list_tools \<lparr>gmailService = sample_gmail, postgresService = \<lparr>pool = None\<rparr>\<rparr>
       = GmailService_getTools sample_gmail
   \<and> call_tool sample_backend \<lparr>gmailService = sample_gmail, postgresService = \<lparr>pool = None\<rparr>\<rparr>
        ''postgres_query'' (Some [(''query'', JStr ''select 1'')]) []
       = (Inl postgres_not_initialized, [])
   \<and> call_tool sample_backend \<lparr>gmailService = initializeGmail Map.empty, postgresService = sample_postgres\<rparr>
        ''gmail_get_labels'' None []
       = (Inl gmail_not_initialized, [])"
proof -
  have e: "\<not> env_set Map.empty ''POSTGRES_PASSWORD''" "\<not> env_set Map.empty ''GMAIL_CLIENT_ID''"
    by (simp_all add: env_set_def)
  have g: "gmail (initializeGmail Map.empty) = None"
    by (simp add: initializeGmail_def e)
  have sg: "startsWith ''gmail_get_labels'' ''gmail_''"
    by (simp add: startsWith_def)
  show ?thesis
    using unconfigured_adapter_contract [of Map.empty sample_backend "[]"
        "\<lparr>gmailService = sample_gmail, postgresService = \<lparr>pool = None\<rparr>\<rparr>"
        "''postgres_query''" "Some [(''query'', JStr ''select 1'')]" "[]"]
      unconfigured_adapter_contract [of sample_env sample_backend "[]"
        "\<lparr>gmailService = initializeGmail Map.empty, postgresService = sample_postgres\<rparr>"
        "''gmail_get_labels''" None "[]"]
      e g sg starts_postgres_query sample_pool sample_gmail_client
    by (simp add: sample_postgres_def sample_gmail_def)
qed

subsection \<open>Unknown tools\<close>

text \<open>
  C5. A tool name that starts with neither \<open>gmail_\<close> nor \<open>postgres_\<close> fails with the
  unknown-tool error in both routers, whatever the argument bag is (present or not, of
  any shape) and whatever state the adapters are in; no adapter runs, so the world is
  unchanged.
\<close>

theorem unknown_tool_fails:
  assumes "\<not> startsWith nm ''gmail_''" and "\<not> startsWith nm ''postgres_''"
  shows "call_tool bk srv nm args w = (Inl (unknown_tool nm), w)
       \<and> http_call_tool bk srv nm args w = (Inl (unknown_tool nm), w)"
  using assms by (simp add: call_tool_def http_call_tool_def)

theorem unknown_tool_fails_witness:
  "call_tool sample_backend sample_server ''foo_bar'' None [] = (Inl (Error ''Unknown tool: foo_bar''), [])
   \<and> http_call_tool sample_backend sample_server ''foo_bar'' (Some [(''query'', JNum 3)]) []
       = (Inl (Error ''Unknown tool: foo_bar''), [])"
proof -
  have g: "\<not> startsWith ''foo_bar'' ''gmail_''" and p: "\<not> startsWith ''foo_bar'' ''postgres_''"
    by (simp_all add: startsWith_def)
  show ?thesis
    using unknown_tool_fails [OF g p, of sample_backend sample_server None "[]"]
      unknown_tool_fails [OF g p, of sample_backend sample_server "Some [(''query'', JNum 3)]" "[]"]
    by (simp add: unknown_tool_def)
qed

subsection \<open>Rejection before the database\<close>

text \<open>
  C6. A statement that fails the SELECT test sent to \<open>postgres_query\<close> is rejected with
  the wrong-operation-kind error before the pool is used: the world after the call is the
  world before it. \<open>DELETE FROM x\<close> is such a statement for every engine that is
  faithful on ASCII. This holds for the function itself, for \<open>handleTool\<close> on a configured
  adapter and for both routers; whatever the adapter's state, the call submits nothing.
\<close>

theorem query_tool_rejects_before_the_database:
  assumes "get_prop a ''query'' = JStr q"
    and "\<not> startsWith (string_toUpperCase bk (string_trim bk q)) ''SELECT''
         \<or> (ascii_faithful bk \<and> q = ''DELETE FROM x'')"
  shows
    "query bk this (Some a) w = (Inl query_rejected, w)
   \<and> (pool (postgresService srv) \<noteq> None \<longrightarrow>
        PostgresService_handleTool bk (postgresService srv) ''postgres_query'' (Some a) w
          = (Inl (postgres_failed query_rejected), w)
      \<and> call_tool bk srv ''postgres_query'' (Some a) w = (Inl (postgres_failed query_rejected), w)
      \<and> http_call_tool bk srv ''postgres_query'' (Some a) w = (Inl (postgres_failed query_rejected), w))
   \<and> snd (call_tool bk srv ''postgres_query'' (Some a) w) = w
   \<and> snd (http_call_tool bk srv ''postgres_query'' (Some a) w) = w"
proof -
  have f: "\<not> startsWith (string_toUpperCase bk (string_trim bk q)) ''SELECT''"
    using assms(2) faithful_delete by blast
  have q: "\<And>t. query bk t (Some a) w = (Inl query_rejected, w)"
    using assms(1) f by (simp add: query_string)
  have h: "pool (postgresService srv) \<noteq> None \<Longrightarrow>
      PostgresService_handleTool bk (postgresService srv) ''postgres_query'' (Some a) w
        = (Inl (postgres_failed query_rejected), w)"
    by (auto simp: handleTool_query q)
  have n: "pool (postgresService srv) = None \<Longrightarrow>
      PostgresService_handleTool bk (postgresService srv) ''postgres_query'' (Some a) w
        = (Inl postgres_not_initialized, w)"
    by (rule handleTool_unconfigured)
  have s: "snd (PostgresService_handleTool bk (postgresService srv) ''postgres_query'' (Some a) w) = w"
    using h n by (cases "pool (postgresService srv)") simp_all
  show ?thesis
    using q h s
    by (simp add: call_tool_postgres http_call_tool_postgres starts_postgres_query)
qed

theorem query_tool_rejects_before_the_database_witness:
  "query sample_backend sample_postgres (Some [(''query'', JStr ''DELETE FROM x'')]) []
     = (Inl query_rejected, [])
   \<and> call_tool sample_backend sample_server ''postgres_query'' (Some [(''query'', JStr ''DELETE FROM x'')]) []
     = (Inl (postgres_failed query_rejected), [])
   \<and> http_call_tool sample_backend sample_server ''postgres_query'' (Some [(''query'', JStr ''DELETE FROM x'')]) []
     = (Inl (postgres_failed query_rejected), [])"
proof -
  have d: "get_prop [(''query'', JStr ''DELETE FROM x'')] ''query'' = JStr ''DELETE FROM x''"
    by (simp add: get_prop_def)
  have n: "\<not> startsWith (string_toUpperCase sample_backend
        (string_trim sample_backend ''DELETE FROM x'')) ''SELECT''
      \<or> (ascii_faithful sample_backend \<and> ''DELETE FROM x'' = ''DELETE FROM x'')"
    using delete_is_no_select sample_ascii_faithful by blast
  have p: "pool (postgresService sample_server) \<noteq> None"
    using sample_pool by (simp add: sample_server_def)
  show ?thesis
    using query_tool_rejects_before_the_database
      [OF d n, of sample_postgres "[]" sample_server] p
    by simp
qed

subsection \<open>Listing tables with the default schema\<close>

text \<open>
  C7. Called with an argument object that has no \<open>schema\<close>, \<open>postgres_get_tables\<close> submits
  the catalog statement (which asks for \<open>ORDER BY table_name\<close>) with the one parameter
  \<open>public\<close>. A request that carries no argument object at all is different: the
  HTTP router replaces the missing bag by the empty object and the statement for
  \<open>public\<close> is submitted, but the stdio router passes the missing bag on, the
  destructuring in \<open>getTables\<close> throws, and the call fails without any statement being
  submitted.
\<close>

theorem get_tables_without_arguments:
  "call_tool sample_backend sample_server ''postgres_get_tables'' None []
     = (Inl (postgres_failed (destructure_error ''schema'')), [])
   \<and> http_call_tool sample_backend sample_server ''postgres_get_tables'' None []
     = runs_statement sample_backend getTables_sql (JArr [JStr ''public'']) [] postgres_failed
         (\<lambda>r. JArr (rows r))
   \<and> call_tool sample_backend sample_server ''postgres_get_tables'' (Some []) []
     = runs_statement sample_backend getTables_sql (JArr [JStr ''public'']) [] postgres_failed
         (\<lambda>r. JArr (rows r))"
proof -
  obtain p where p: "pool (postgresService sample_server) = Some p"
    using sample_pool by (auto simp: sample_server_def)
  have n: "getTables sample_backend (postgresService sample_server) None []
             = (Inl (destructure_error ''schema''), [])"
    by (simp add: getTables_def)
  have s: "getTables sample_backend (postgresService sample_server) (Some []) []
             = runs_statement sample_backend getTables_sql (JArr [JStr ''public'']) [] unwrapped
                 (\<lambda>r. JArr (rows r))"
    by (simp add: getTables_def get_prop_def default_to_def pool_run_Some [OF p])
  show ?thesis
    by (simp add: call_tool_postgres http_call_tool_postgres starts_postgres_get_tables
        handleTool_get_tables [OF p] n s wrap_runs_statement)
qed

text \<open>
  For every argument object without a \<open>schema\<close> property the adapter submits the catalog
  statement with the parameter \<open>public\<close> and returns the driver's rows as they come,
  in the driver's order; the statement itself asks the database to order by \<open>table_name\<close>.
\<close>

theorem get_tables_default_schema:
  assumes "pool this = Some p" and "get_prop a ''schema'' = JUndefined"
  shows
    "getTables bk this (Some a) w
       = runs_statement bk getTables_sql (JArr [JStr ''public'']) w unwrapped (\<lambda>r. JArr (rows r))
   \<and> PostgresService_handleTool bk this ''postgres_get_tables'' (Some a) w
       = runs_statement bk getTables_sql (JArr [JStr ''public'']) w postgres_failed (\<lambda>r. JArr (rows r))
   \<and> (\<exists>pre post. getTables_sql = pre @ ''ORDER BY table_name;'' @ post)"
proof -
  have g: "getTables bk this (Some a) w
       = runs_statement bk getTables_sql (JArr [JStr ''public'']) w unwrapped (\<lambda>r. JArr (rows r))"
    using assms by (simp add: getTables_def default_to_def pool_run_Some)
  have t: "getTables_sql =
      ''\<newline>      SELECT table_name, table_type\<newline>      FROM information_schema.tables\<newline>      WHERE table_schema = $1\<newline>      ''
      @ ''ORDER BY table_name;'' @ ''\<newline>    ''"
    by (simp add: getTables_sql_def)
  have o: "\<exists>pre post. getTables_sql = pre @ ''ORDER BY table_name;'' @ post"
    using t by blast
  show ?thesis
    using g o by (simp add: handleTool_get_tables [OF assms(1)] wrap_runs_statement)
qed

theorem get_tables_default_schema_witness:
  "getTables sample_backend sample_postgres (Some []) []
     = runs_statement sample_backend getTables_sql (JArr [JStr ''public'']) [] unwrapped
         (\<lambda>r. JArr (rows r))
   \<and> fst (getTables sample_backend sample_postgres (Some []) [])
     = Inr (text_result (JArr (rows sample_result)))"
proof -
  obtain p where p: "pool sample_postgres = Some p"
    using sample_pool by auto
  have u: "get_prop [] ''schema'' = JUndefined"
    by (simp add: get_prop_def)
  show ?thesis
    using get_tables_default_schema [OF p u, of sample_backend "[]"]
    by (simp add: runs_statement_def sample_backend_def)
qed

subsection \<open>The inbox resource\<close>

text \<open>
  C8. Reading \<open>gmail://inbox\<close> and calling \<open>gmail_list_emails\<close> with \<open>maxResults = 20\<close>
  send the same request to the email API. When the tool call returns a result, the
  resource read returns the text of its content item under the uri \<open>gmail://inbox\<close> and
  the mime type \<open>application/json\<close>; when the resource read returns an envelope, its text
  is the text of the content item the tool call returns. Both routers reach these two
  operations for that uri and that tool name.
\<close>

theorem inbox_resource_is_list_tool:
  "(\<forall>r w'. GmailService_handleTool bk this ''gmail_list_emails'' (Some [(''maxResults'', JNum 20)]) w
              = (Inr r, w')
        \<longrightarrow> content r \<noteq> []
          \<and> GmailService_readResource bk this ''gmail://inbox'' w
              = (Inr (inbox_envelope (text' (hd (content r)))), w'))
   \<and> (\<forall>rr w'. GmailService_readResource bk this ''gmail://inbox'' w = (Inr rr, w')
        \<longrightarrow> (\<exists>r. GmailService_handleTool bk this ''gmail_list_emails'' (Some [(''maxResults'', JNum 20)]) w
                    = (Inr r, w')
                \<and> rr = inbox_envelope (text' (hd (content r)))))
   \<and> snd (GmailService_readResource bk this ''gmail://inbox'' w)
       = snd (GmailService_handleTool bk this ''gmail_list_emails'' (Some [(''maxResults'', JNum 20)]) w)
   \<and> read_resource bk e \<lparr>gmailService = this, postgresService = pg\<rparr> ''gmail://inbox'' w
       = GmailService_readResource bk this ''gmail://inbox'' w
   \<and> call_tool bk \<lparr>gmailService = this, postgresService = pg\<rparr> ''gmail_list_emails''
        (Some [(''maxResults'', JNum 20)]) w
       = GmailService_handleTool bk this ''gmail_list_emails'' (Some [(''maxResults'', JNum 20)]) w"
proof -
  have routers:
    "read_resource bk e \<lparr>gmailService = this, postgresService = pg\<rparr> ''gmail://inbox'' w
       = GmailService_readResource bk this ''gmail://inbox'' w"
    "call_tool bk \<lparr>gmailService = this, postgresService = pg\<rparr> ''gmail_list_emails''
        (Some [(''maxResults'', JNum 20)]) w
       = GmailService_handleTool bk this ''gmail_list_emails'' (Some [(''maxResults'', JNum 20)]) w"
    by (simp_all add: read_resource_def call_tool_def startsWith_def)
  show ?thesis
  proof (cases "gmail this")
    case None
    then show ?thesis
      using routers
      by (simp add: gmail_handleTool_unconfigured readResource_inbox listEmails_unconfigured)
  next
    case (Some g)
    show ?thesis
    proof (cases "messages_list bk w JUndefined (JNum 20) JUndefined")
      case (Inl err)
      then show ?thesis
        using routers
        by (simp add: handleTool_list [OF Some] listEmails_20 [OF Some] readResource_inbox)
    next
      case (Inr response)
      then show ?thesis
        using routers
        by (simp add: handleTool_list [OF Some] listEmails_20 [OF Some] readResource_inbox
            text_result_def)
    qed
  qed
qed

theorem inbox_resource_is_list_tool_witness:
  "GmailService_handleTool sample_backend sample_gmail ''gmail_list_emails'' (Some [(''maxResults'', JNum 20)]) []
     = (Inr (text_result (JArr [JObj [(''id'', JStr ''m1''), (''threadId'', JStr ''t1'')]])),
        [MessagesList JUndefined (JNum 20) JUndefined])
   \<and> GmailService_readResource sample_backend sample_gmail ''gmail://inbox'' []
     = (Inr (inbox_envelope (JSON_stringify (JArr [JObj [(''id'', JStr ''m1''), (''threadId'', JStr ''t1'')]]))),
        [MessagesList JUndefined (JNum 20) JUndefined])"
proof -
  obtain g where g: "gmail sample_gmail = Some g"
    using sample_gmail_client by auto
  have h: "GmailService_handleTool sample_backend sample_gmail ''gmail_list_emails''
             (Some [(''maxResults'', JNum 20)]) []
     = (Inr (text_result (JArr [JObj [(''id'', JStr ''m1''), (''threadId'', JStr ''t1'')]])),
        [MessagesList JUndefined (JNum 20) JUndefined])"
    by (simp add: handleTool_list [OF g] listEmails_20 [OF g] sample_backend_def emailList_def
        str_or_null_def)
  have "GmailService_readResource sample_backend sample_gmail ''gmail://inbox'' []
     = (Inr (inbox_envelope (text' (hd (content
          (text_result (JArr [JObj [(''id'', JStr ''m1''), (''threadId'', JStr ''t1'')]])))))),
        [MessagesList JUndefined (JNum 20) JUndefined])"
    using h inbox_resource_is_list_tool [of sample_backend sample_gmail "[]"] by blast
  then show ?thesis
    using h by (simp add: text_result_def)
qed

subsection \<open>Empty lines of the raw message\<close>

text \<open>
  C9. For a well-typed send request the raw message is the CR LF join of the lines that
  are left after every empty string has been filtered out of the assembled array. The
  empty string placed between the Content-Type line and the body is always among the
  removed ones, so no kept line is empty, the body follows the Content-Type line after a
  single CR LF, and when the chosen body is empty the message ends with the Content-Type
  line. An empty line occurs in the message exactly where one of the kept texts contains
  one itself: splitting the message gives the lines of the kept texts, so a message
  whose kept texts have no empty line has none.
\<close>

theorem raw_message_has_no_separator:
  assumes "send_args a to subject plain html cc bcc"
  shows
    "rawMessage a = array_join CRLF (filter (\<lambda>line. line \<noteq> JStr []) (message_lines a))
   \<and> JStr [] \<in> set (message_lines a)
   \<and> rawMessage a = join CRLF (kept_lines to subject plain html cc bcc)
   \<and> [] \<notin> set (kept_lines to subject plain html cc bcc)
   \<and> rawMessage a
       = join CRLF (header_lines to subject html cc bcc)
         @ (if chosen_body plain html = [] then [] else CRLF @ chosen_body plain html)
   \<and> (chosen_body plain html = [] \<longrightarrow>
        (\<exists>pre. rawMessage a = pre @ CRLF @ content_type_line html))
   \<and> split_crlf (rawMessage a) = concat (map split_crlf (kept_lines to subject plain html cc bcc))
   \<and> ((\<forall>l\<in>set (kept_lines to subject plain html cc bcc). [] \<notin> set (split_crlf l)) \<longrightarrow>
        [] \<notin> set (split_crlf (rawMessage a)))"
proof -
  have r: "rawMessage a = join CRLF (kept_lines to subject plain html cc bcc)"
    by (rule rawMessage_valid [OF assms])
  have m: "JStr [] \<in> set (message_lines a)"
    by (simp add: message_lines_valid [OF assms])
  have k: "join CRLF (kept_lines to subject plain html cc bcc)
       = join CRLF (header_lines to subject html cc bcc)
         @ (if chosen_body plain html = [] then [] else CRLF @ chosen_body plain html)"
    by (simp add: kept_lines_def join_snoc [OF header_lines_nonempty])
  have e: "chosen_body plain html = [] \<longrightarrow>
        (\<exists>pre. rawMessage a = pre @ CRLF @ content_type_line html)"
    using header_lines_last [of to subject html cc bcc] by (simp add: r k)
  have s: "split_crlf (rawMessage a) = concat (map split_crlf (kept_lines to subject plain html cc bcc))"
    by (rule split_decoded [OF assms])
  have n: "(\<forall>l\<in>set (kept_lines to subject plain html cc bcc). [] \<notin> set (split_crlf l)) \<longrightarrow>
        [] \<notin> set (split_crlf (rawMessage a))"
    by (simp add: s)
  show ?thesis
    using r m k e s n kept_lines_nonempty [of to subject plain html cc bcc]
    by (simp add: rawMessage_def)
qed

theorem raw_message_has_no_separator_witness:
  "rawMessage [(''to'', JStr ''a@b.c''), (''subject'', JStr ''s''), (''body'', JStr ''plain''),
               (''htmlBody'', JStr [])]
     = ''To: a@b.c'' @ CRLF @ ''Subject: s'' @ CRLF @ ''Content-Type: text/plain; charset=utf-8''
       @ CRLF @ ''plain''
   \<and> [] \<notin> set (split_crlf (rawMessage [(''to'', JStr ''a@b.c''), (''subject'', JStr ''s''),
               (''body'', JStr ''plain''), (''htmlBody'', JStr [])]))"
proof -
  have l: "split_crlf ''To: a@b.c'' = [''To: a@b.c'']" "split_crlf ''Subject: s'' = [''Subject: s'']"
    "split_crlf ''Content-Type: text/plain; charset=utf-8'' = [''Content-Type: text/plain; charset=utf-8'']"
    "split_crlf ''plain'' = [''plain'']"
    by simp_all
  have k: "kept_lines ''a@b.c'' ''s'' ''plain'' (Some []) None None
      = [''To: a@b.c'', ''Subject: s'', ''Content-Type: text/plain; charset=utf-8'', ''plain'']"
    by (simp add: kept_lines_def header_lines_def chosen_body_def content_type_line_def
        has_text_def)
  have e: "\<forall>l\<in>set (kept_lines ''a@b.c'' ''s'' ''plain'' (Some []) None None).
      [] \<notin> set (split_crlf l)"
    by (simp only: k) (simp add: l)
  have r: "rawMessage [(''to'', JStr ''a@b.c''), (''subject'', JStr ''s''), (''body'', JStr ''plain''),
               (''htmlBody'', JStr [])]
     = join CRLF (kept_lines ''a@b.c'' ''s'' ''plain'' (Some []) None None)"
    and n: "[] \<notin> set (split_crlf (rawMessage [(''to'', JStr ''a@b.c''), (''subject'', JStr ''s''),
               (''body'', JStr ''plain''), (''htmlBody'', JStr [])]))"
    using raw_message_has_no_separator [OF example_html_empty] e by blast+
  show ?thesis
    using n by (simp add: r k)
qed

text \<open>
  As stated for every input the claim fails: a body of two paragraphs has an empty line
  of its own, and the built message contains it.
\<close>

theorem raw_message_has_no_separator_counterexample:
  "split_crlf (rawMessage [(''to'', JStr ''a@b.c''), (''subject'', JStr ''s''),
                           (''body'', JStr (''p1'' @ CRLF @ CRLF @ ''p2''))])
     = [''To: a@b.c'', ''Subject: s'', ''Content-Type: text/plain; charset=utf-8'', ''p1'', [], ''p2'']
   \<and> [] \<in> set (split_crlf (rawMessage [(''to'', JStr ''a@b.c''), (''subject'', JStr ''s''),
                           (''body'', JStr (''p1'' @ CRLF @ CRLF @ ''p2''))]))"
proof -
  have "split_crlf (rawMessage [(''to'', JStr ''a@b.c''), (''subject'', JStr ''s''),
                           (''body'', JStr (''p1'' @ CRLF @ CRLF @ ''p2''))])
     = [''To: a@b.c'', ''Subject: s'', ''Content-Type: text/plain; charset=utf-8'', ''p1'', [], ''p2'']"
    by (simp only: split_decoded [OF example_paragraphs])
       (simp add: kept_lines_def header_lines_def chosen_body_def content_type_line_def
         has_text_def CRLF_def)
  then show ?thesis by simp
qed

subsection \<open>After cleanup\<close>

text \<open>
  C10. Once \<open>cleanup\<close> of the database adapter has completed, the pool handle is null and
  nothing brings it back: after any sequence of further public operations on the
  instance the pool is still null and the world is as \<open>cleanup\<close> left it, every
  \<open>handleTool\<close> call fails with the not-configured error, \<open>getTools\<close> is empty, reading
  \<open>postgres://connection\<close> reports the status \<open>disconnected\<close> without a probe, and
  another \<open>cleanup\<close> changes nothing.
\<close>

theorem cleanup_is_permanent:
  assumes "PostgresService_cleanup bk this w = (Inr (), this', w')"
  shows
    "pool this' = None
   \<and> pg_run bk e (this', w') ops = (this', w')
   \<and> pool (fst (pg_run bk e (this', w') ops)) = None
   \<and> PostgresService_handleTool bk (fst (pg_run bk e (this', w') ops)) nm args w1
       = (Inl postgres_not_initialized, w1)
   \<and> PostgresService_getTools (fst (pg_run bk e (this', w') ops)) = []
   \<and> PostgresService_readResource bk e (fst (pg_run bk e (this', w') ops)) ''postgres://connection'' w1
       = (Inr \<lparr>contents = [\<lparr>uri = ''postgres://connection'', mimeType = ''application/json'',
                resource_text = JSON_stringify (connection_status e ''disconnected'')\<rparr>]\<rparr>, w1)
   \<and> json_field (connection_status e ''disconnected'') ''status'' = JStr ''disconnected''
   \<and> PostgresService_cleanup bk (fst (pg_run bk e (this', w') ops)) w1
       = (Inr (), fst (pg_run bk e (this', w') ops), w1)"
proof -
  have p: "pool this' = None"
    using assms by (rule cleanup_result)
  then have r: "pg_run bk e (this', w') ops = (this', w')"
    by (rule pg_run_unconfigured)
  have s: "json_field (connection_status e ''disconnected'') ''status'' = JStr ''disconnected''"
    by (simp add: json_field_def connection_status_def get_prop_def)
  show ?thesis
    using p s
    by (simp add: r handleTool_unconfigured PostgresService_getTools_def
        PostgresService_readResource_def PostgresService_cleanup_def)
qed

theorem cleanup_is_permanent_witness:
  "PostgresService_cleanup sample_backend sample_postgres [] = (Inr (), \<lparr>pool = None\<rparr>, [PoolEnd])
   \<and> pg_run sample_backend sample_env (\<lparr>pool = None\<rparr>, [PoolEnd])
        [HandleTool ''postgres_query'' (Some [(''query'', JStr ''select 1'')]),
         ReadResource ''postgres://connection'', Cleanup, GetTools]
       = (\<lparr>pool = None\<rparr>, [PoolEnd])
   \<and> PostgresService_handleTool sample_backend \<lparr>pool = None\<rparr> ''postgres_get_tables'' (Some []) [PoolEnd]
       = (Inl postgres_not_initialized, [PoolEnd])
   \<and> PostgresService_getTools \<lparr>pool = None\<rparr> = []
   \<and> PostgresService_cleanup sample_backend \<lparr>pool = None\<rparr> [PoolEnd] = (Inr (), \<lparr>pool = None\<rparr>, [PoolEnd])"
proof -
  have c: "PostgresService_cleanup sample_backend sample_postgres [] = (Inr (), \<lparr>pool = None\<rparr>, [PoolEnd])"
    by (simp add: PostgresService_cleanup_def sample_postgres_def initializePostgres_def
        sample_env_def call_pool_end_def sample_backend_def)
  show ?thesis
    using c cleanup_is_permanent [OF c, of sample_env
        "[HandleTool ''postgres_query'' (Some [(''query'', JStr ''select 1'')]),
          ReadResource ''postgres://connection'', Cleanup, GetTools]"
        "''postgres_get_tables''" "Some []" "[PoolEnd]"]
    by (elim conjE) simp
qed

end
